theory Spec2Isabelle
  imports Complex_Main
begin

section \<open>The browser: localStorage and the window location\<close>

text \<open>
  Both frontends keep the session token in \<^verbatim>\<open>localStorage\<close>, a string-keyed store of
  strings. \<^verbatim>\<open>getItem\<close> answers \<^verbatim>\<open>null\<close> (here \<open>None\<close>) for a key that is not there.
\<close>

type_synonym storage = "string \<rightharpoonup> string"

definition getItem :: "storage \<Rightarrow> string \<Rightarrow> string option" where
  "getItem ls k = ls k"

definition setItem :: "storage \<Rightarrow> string \<Rightarrow> string \<Rightarrow> storage" where
  "setItem ls k v = ls(k \<mapsto> v)"

definition removeItem :: "storage \<Rightarrow> string \<Rightarrow> storage" where
  "removeItem ls k = ls(k := None)"

text \<open>
  JavaScript's conversion of a string-or-null to a boolean (\<^verbatim>\<open>if (token)\<close>, \<^verbatim>\<open>!!token\<close>):
  \<^verbatim>\<open>null\<close> and the empty string are falsy, every other string is truthy. The conversion
  to a string inside a template literal turns \<^verbatim>\<open>null\<close> into the text \<^verbatim>\<open>null\<close>.
\<close>

definition truthy :: "string option \<Rightarrow> bool" where
  "truthy v = (case v of None \<Rightarrow> False | Some s \<Rightarrow> s \<noteq> [])"

definition js_string :: "string option \<Rightarrow> string" where
  "js_string v = (case v of None \<Rightarrow> ''null'' | Some s \<Rightarrow> s)"

record browser =
  localStorage :: storage
  href :: string

section \<open>The shared HTTP clients\<close>

text \<open>
  A request as the axios client hands it to the request interceptor. Both clients are
  created with the single default header \<^verbatim>\<open>Content-Type: application/json\<close>; the call
  sites of the services pass either no headers of their own or a \<^verbatim>\<open>Content-Type\<close>
  (\<^verbatim>\<open>multipart/form-data\<close> for the uploads), which replaces the default.
\<close>

record request_config =
  url :: string
  headers :: "string \<rightharpoonup> string"
  data_is_FormData :: bool

definition client_request :: "string \<Rightarrow> string option \<Rightarrow> bool \<Rightarrow> request_config" where
  "client_request u content_type form =
     \<lparr>url = u,
      headers = [''Content-Type'' \<mapsto>
                   (case content_type of None \<Rightarrow> ''application/json'' | Some c \<Rightarrow> c)],
      data_is_FormData = form\<rparr>"

text \<open>\<^verbatim>\<open>nissan-ml-platform/frontend/src/services/api.js\<close>, the request interceptor of \<^verbatim>\<open>apiClient\<close>.\<close>

definition nissan_request_interceptor :: "storage \<Rightarrow> request_config \<Rightarrow> request_config" where
  "nissan_request_interceptor ls config =
     (let token = getItem ls ''token'' in
      if truthy token
      then config\<lparr>headers := (headers config)(''Authorization'' \<mapsto> ''Bearer '' @ js_string token)\<rparr>
      else config)"

text \<open>
  \<^verbatim>\<open>ev-battery-predictor/frontend/src/services/api.js\<close>, the request interceptor of \<^verbatim>\<open>api\<close>:
  the same, and the \<^verbatim>\<open>Content-Type\<close> is deleted when the body is a \<^verbatim>\<open>FormData\<close>.
\<close>

definition ev_request_interceptor :: "storage \<Rightarrow> request_config \<Rightarrow> request_config" where
  "ev_request_interceptor ls config =
     (let token = getItem ls ''token'';
          config1 = (if truthy token
                     then config\<lparr>headers := (headers config)(''Authorization'' \<mapsto> ''Bearer '' @ js_string token)\<rparr>
                     else config)
      in if data_is_FormData config1
         then config1\<lparr>headers := (headers config1)(''Content-Type'' := None)\<rparr>
         else config1)"

text \<open>
  An axios error: \<^verbatim>\<open>error.response\<close> is missing when no answer came back (network
  failure); otherwise it carries the HTTP status and, from these backends, an optional
  \<^verbatim>\<open>data.detail\<close> text.
\<close>

record http_response =
  status :: int
  detail :: "string option"

record axios_error =
  response :: "http_response option"
  message :: string

text \<open>
  The response interceptors. A fulfilled response passes through; a rejected one is
  rejected again (\<open>Inl\<close>), after the token is dropped and the window sent to
  \<^verbatim>\<open>/login\<close> when the status is 401. The Nissan client tests
  \<^verbatim>\<open>error.response && error.response.status === 401\<close>, the EV client
  \<^verbatim>\<open>error.response?.status === 401\<close>.
\<close>

definition nissan_response_interceptor ::
    "browser \<Rightarrow> axios_error + 'a \<Rightarrow> browser \<times> (axios_error + 'a)" where
  "nissan_response_interceptor b r =
     (case r of
        Inr resp \<Rightarrow> (b, Inr resp)
      | Inl error \<Rightarrow>
          (if response error \<noteq> None \<and> status (the (response error)) = 401
           then (b\<lparr>localStorage := removeItem (localStorage b) ''token'', href := ''/login''\<rparr>,
                 Inl error)
           else (b, Inl error)))"

definition ev_response_interceptor ::
    "browser \<Rightarrow> axios_error + 'a \<Rightarrow> browser \<times> (axios_error + 'a)" where
  "ev_response_interceptor b r =
     (case r of
        Inr resp \<Rightarrow> (b, Inr resp)
      | Inl error \<Rightarrow>
          (if map_option status (response error) = Some 401
           then (b\<lparr>localStorage := removeItem (localStorage b) ''token'', href := ''/login''\<rparr>,
                 Inl error)
           else (b, Inl error)))"

section \<open>Authentication\<close>

subsection \<open>Nissan ML platform: \<^verbatim>\<open>authService\<close> and \<^verbatim>\<open>AuthProvider\<close>\<close>

text \<open>
  The body of a successful answer to \<^verbatim>\<open>POST /auth/login\<close>, and the profile that
  \<^verbatim>\<open>GET /auth/me\<close> answers with.
\<close>

record token_response =
  access_token :: string
  token_type :: string

record user =
  user_id :: nat
  email :: string

text \<open>
  \<^verbatim>\<open>authService.login\<close> posts with plain \<^verbatim>\<open>axios\<close>, not with the shared client, so no
  interceptor runs; the backend's answer is the parameter \<open>r\<close>. A rejected request
  throws before \<^verbatim>\<open>setItem\<close> is reached.
\<close>

definition authService_login ::
    "browser \<Rightarrow> axios_error + token_response \<Rightarrow> browser \<times> (axios_error + token_response)" where
  "authService_login b r =
     (case r of
        Inl error \<Rightarrow> (b, Inl error)
      | Inr data \<Rightarrow>
          (b\<lparr>localStorage := setItem (localStorage b) ''token'' (access_token data)\<rparr>, Inr data))"

definition authService_logout :: "browser \<Rightarrow> browser" where
  "authService_logout b = b\<lparr>localStorage := removeItem (localStorage b) ''token''\<rparr>"

definition authService_getCurrentUser ::
    "browser \<Rightarrow> axios_error + user \<Rightarrow> browser \<times> (axios_error + user)" where
  "authService_getCurrentUser b r = nissan_response_interceptor b r"

definition authService_isAuthenticated :: "browser \<Rightarrow> bool" where
  "authService_isAuthenticated b = truthy (getItem (localStorage b) ''token'')"

text \<open>
  The payload that \<^verbatim>\<open>jwtDecode\<close> returns; the \<^verbatim>\<open>exp\<close> claim is a number of seconds,
  or undefined (\<open>None\<close>) when the token has none. \<^verbatim>\<open>jwtDecode\<close> itself belongs to the
  \<^verbatim>\<open>jwt-decode\<close> package and is a parameter of the model: it answers \<open>None\<close> where
  the library throws. A comparison with undefined is false in JavaScript.
\<close>

record jwt_payload =
  exp_claim :: "rat option"
  sub :: string

definition js_less :: "rat option \<Rightarrow> rat \<Rightarrow> bool" where
  "js_less a b = (case a of None \<Rightarrow> False | Some x \<Rightarrow> x < b)"

record auth_state =
  currentUser :: "user option"
  loading :: bool
  error :: "string option"

text \<open>
  \<^verbatim>\<open>initAuth\<close> in \<^verbatim>\<open>context/AuthContext.js\<close>. \<open>now_ms\<close> is \<^verbatim>\<open>Date.now()\<close>, \<open>profile\<close> the
  backend's answer to \<^verbatim>\<open>GET /auth/me\<close>. The third component of the result lists the
  requests that were sent. The profile request sits inside the inner \<^verbatim>\<open>try\<close>, so its
  failure is caught by the same handler as a decoding failure.
\<close>

definition initAuth ::
    "(string \<Rightarrow> jwt_payload option) \<Rightarrow> int \<Rightarrow> axios_error + user \<Rightarrow>
     browser \<Rightarrow> auth_state \<Rightarrow> browser \<times> auth_state \<times> string list" where
  "initAuth jwtDecode now_ms profile b st =
     (let token = getItem (localStorage b) ''token'' in
      if truthy token then
        (case jwtDecode (js_string token) of
           None \<Rightarrow>
             (b\<lparr>localStorage := removeItem (localStorage b) ''token''\<rparr>,
              st\<lparr>currentUser := None, loading := False\<rparr>, [])
         | Some decodedToken \<Rightarrow>
             (let currentTime = of_int now_ms / 1000 in
              if js_less (exp_claim decodedToken) currentTime then
                (b\<lparr>localStorage := removeItem (localStorage b) ''token''\<rparr>,
                 st\<lparr>currentUser := None, loading := False\<rparr>, [])
              else
                (case authService_getCurrentUser b profile of
                   (b1, Inr userData) \<Rightarrow>
                     (b1, st\<lparr>currentUser := Some userData, loading := False\<rparr>, [''/auth/me''])
                 | (b1, Inl e) \<Rightarrow>
                     (b1\<lparr>localStorage := removeItem (localStorage b1) ''token''\<rparr>,
                      st\<lparr>currentUser := None, loading := False\<rparr>, [''/auth/me'']))))
      else (b, st\<lparr>loading := False\<rparr>, []))"

subsection \<open>EV battery predictor: \<^verbatim>\<open>AuthProvider\<close>\<close>

record ev_auth_state =
  ev_user :: "user option"
  ev_loading :: bool
  isAuthenticated :: bool

text \<open>
  The mount effect of \<^verbatim>\<open>contexts/AuthContext.js\<close>: with a token in the store the
  profile is requested through the shared client; the token is not decoded.
\<close>

definition ev_initAuth ::
    "axios_error + user \<Rightarrow> browser \<Rightarrow> ev_auth_state \<Rightarrow> browser \<times> ev_auth_state \<times> string list" where
  "ev_initAuth profile b st =
     (let token = getItem (localStorage b) ''token'' in
      if truthy token then
        (case ev_response_interceptor b profile of
           (b1, Inr data) \<Rightarrow>
             (b1, st\<lparr>ev_user := Some data, isAuthenticated := True, ev_loading := False\<rparr>,
              [''/auth/me''])
         | (b1, Inl e) \<Rightarrow>
             (b1\<lparr>localStorage := removeItem (localStorage b1) ''token''\<rparr>,
              st\<lparr>ev_loading := False\<rparr>, [''/auth/me'']))
      else (b, st\<lparr>ev_loading := False\<rparr>, []))"

text \<open>
  \<^verbatim>\<open>login\<close> and \<^verbatim>\<open>logout\<close> of the EV \<^verbatim>\<open>AuthProvider\<close>. Both requests of \<^verbatim>\<open>login\<close> go
  through the shared client; the result is the \<^verbatim>\<open>success\<close> field of what
  \<^verbatim>\<open>handleApiSuccess\<close> or \<^verbatim>\<open>handleApiError\<close> returns.
\<close>

definition ev_login ::
    "axios_error + token_response \<Rightarrow> axios_error + user \<Rightarrow>
     browser \<Rightarrow> ev_auth_state \<Rightarrow> browser \<times> ev_auth_state \<times> bool" where
  "ev_login login_answer profile b st =
     (case ev_response_interceptor b login_answer of
        (b1, Inl e) \<Rightarrow> (b1, st, False)
      | (b1, Inr data) \<Rightarrow>
          (let b2 = b1\<lparr>localStorage := setItem (localStorage b1) ''token'' (access_token data)\<rparr> in
           case ev_response_interceptor b2 profile of
             (b3, Inl e) \<Rightarrow> (b3, st, False)
           | (b3, Inr u) \<Rightarrow> (b3, st\<lparr>ev_user := Some u, isAuthenticated := True\<rparr>, True)))"

definition ev_logout :: "browser \<Rightarrow> ev_auth_state \<Rightarrow> browser \<times> ev_auth_state" where
  "ev_logout b st =
     (b\<lparr>localStorage := removeItem (localStorage b) ''token''\<rparr>,
      st\<lparr>ev_user := None, isAuthenticated := False\<rparr>)"

section \<open>Nissan ML platform: list views and model results\<close>

text \<open>
  The message a handler shows for a rejected request:
  \<^verbatim>\<open>err.response?.data?.detail || fallback\<close>. The texts of the source carry accents,
  which are dropped here.
\<close>

definition detail_or :: "axios_error \<Rightarrow> string \<Rightarrow> string" where
  "detail_or err fallback =
     (case response err of
        None \<Rightarrow> fallback
      | Some r \<Rightarrow> (if truthy (detail r) then js_string (detail r) else fallback))"

subsection \<open>\<^verbatim>\<open>FilesList\<close>\<close>

record uploaded_file =
  file_id :: nat
  original_filename :: string
  file_size :: nat
  is_processed :: bool

record files_list =
  files :: "uploaded_file list"
  files_error :: "string option"
  files_deleteDialogOpen :: bool
  fileToDelete :: "uploaded_file option"
  files_deleting :: bool

text \<open>
  \<^verbatim>\<open>fileService.deleteFile\<close> sends \<^verbatim>\<open>DELETE /files/{id}\<close> through the shared client and
  answers \<^verbatim>\<open>true\<close>; \<open>answer\<close> is what the backend said.
\<close>

definition fileService_deleteFile ::
    "browser \<Rightarrow> axios_error + unit \<Rightarrow> browser \<times> (axios_error + bool)" where
  "fileService_deleteFile b answer =
     (case nissan_response_interceptor b answer of
        (b1, Inl err) \<Rightarrow> (b1, Inl err)
      | (b1, Inr _) \<Rightarrow> (b1, Inr True))"

text \<open>
  \<^verbatim>\<open>handleDeleteConfirm\<close> of \<^verbatim>\<open>FilesList\<close>. The optional \<^verbatim>\<open>onRefreshNeeded\<close> callback of
  the parent runs after \<^verbatim>\<open>setFiles\<close> and does not reach this component's state. The
  \<^verbatim>\<open>finally\<close> block clears \<^verbatim>\<open>deleting\<close> and closes the dialog on both paths.
\<close>

definition files_handleDeleteConfirm ::
    "axios_error + unit \<Rightarrow> browser \<Rightarrow> files_list \<Rightarrow> browser \<times> files_list" where
  "files_handleDeleteConfirm answer b st =
     (case fileToDelete st of
        None \<Rightarrow> (b, st)
      | Some target \<Rightarrow>
          (case fileService_deleteFile b answer of
             (b1, Inr _) \<Rightarrow>
               (b1, st\<lparr>files := filter (\<lambda>file. file_id file \<noteq> file_id target) (files st),
                       files_deleting := False, files_deleteDialogOpen := False,
                       fileToDelete := None\<rparr>)
           | (b1, Inl err) \<Rightarrow>
               (b1, st\<lparr>files_error := Some (detail_or err ''Error al eliminar archivo''),
                       files_deleting := False, files_deleteDialogOpen := False,
                       fileToDelete := None\<rparr>)))"

subsection \<open>\<^verbatim>\<open>ModelsList\<close>\<close>

record ml_model =
  model_id :: nat
  model_name :: string
  training_status :: string

text \<open>
  A timer made by \<^verbatim>\<open>setInterval(callback, delay)\<close>: the browser fires it when the clock
  reaches \<open>next_due\<close> and arms it again \<open>delay\<close> milliseconds later, until
  \<^verbatim>\<open>clearInterval\<close>. A component holds \<open>None\<close> where it has no live timer.
\<close>

record interval_timer =
  delay :: nat
  next_due :: nat

definition setInterval :: "nat \<Rightarrow> nat \<Rightarrow> interval_timer" where
  "setInterval now d = \<lparr>delay = d, next_due = now + d\<rparr>"

definition rearm :: "interval_timer \<Rightarrow> interval_timer" where
  "rearm t = t\<lparr>next_due := next_due t + delay t\<rparr>"

text \<open>
  The state of a mounted \<^verbatim>\<open>ModelsList\<close>. Besides the \<^verbatim>\<open>useState\<close> cells it holds the
  effect's interval and the value of \<^verbatim>\<open>models\<close> that the interval's callback closed over:
  the callback is created when the effect runs, and the effect runs on mount and when
  \<^verbatim>\<open>fileId\<close> changes (its dependency list is \<^verbatim>\<open>[fileId]\<close>), so the callback reads the
  \<^verbatim>\<open>models\<close> of that render for as long as the interval lives. \<open>requests\<close> lists the
  \<^verbatim>\<open>fileId\<close> argument of every \<^verbatim>\<open>getModels\<close> request sent so far.
\<close>

record models_list =
  fileId :: "nat option"
  models :: "ml_model list"
  models_loading :: bool
  models_error :: "string option"
  models_deleteDialogOpen :: bool
  modelToDelete :: "ml_model option"
  models_deleting :: bool
  interval :: "interval_timer option"
  closure_models :: "ml_model list"
  requests :: "nat option list"

definition mlModelService_deleteModel ::
    "browser \<Rightarrow> axios_error + unit \<Rightarrow> browser \<times> (axios_error + bool)" where
  "mlModelService_deleteModel b answer =
     (case nissan_response_interceptor b answer of
        (b1, Inl err) \<Rightarrow> (b1, Inl err)
      | (b1, Inr _) \<Rightarrow> (b1, Inr True))"

definition models_handleDeleteConfirm ::
    "axios_error + unit \<Rightarrow> browser \<Rightarrow> models_list \<Rightarrow> browser \<times> models_list" where
  "models_handleDeleteConfirm answer b st =
     (case modelToDelete st of
        None \<Rightarrow> (b, st)
      | Some target \<Rightarrow>
          (case mlModelService_deleteModel b answer of
             (b1, Inr _) \<Rightarrow>
               (b1, st\<lparr>models := filter (\<lambda>model. model_id model \<noteq> model_id target) (models st),
                       models_deleting := False, models_deleteDialogOpen := False,
                       modelToDelete := None\<rparr>)
           | (b1, Inl err) \<Rightarrow>
               (b1, st\<lparr>models_error := Some (detail_or err ''Error al eliminar modelo''),
                       models_deleting := False, models_deleteDialogOpen := False,
                       modelToDelete := None\<rparr>)))"

subsection \<open>\<^verbatim>\<open>ModelResults\<close>: the predictions of a model\<close>

text \<open>
  The body of \<^verbatim>\<open>POST /models/{id}/predict\<close> is \<^verbatim>\<open>{}\<close> (\<open>None\<close>) or
  \<^verbatim>\<open>{indices: [...]}\<close>. Of the answer to the first the page reads
  \<^verbatim>\<open>original.indices\<close>, \<^verbatim>\<open>original.actual_values\<close>, \<^verbatim>\<open>original.predictions\<close>,
  \<^verbatim>\<open>projection.indices\<close> and \<^verbatim>\<open>projection.predictions\<close>; of the answer to the second it reads
  the \<^verbatim>\<open>predictions\<close> array. The record holds all of them. Indexing an array past its
  end gives undefined (\<open>None\<close>).
\<close>

record original_series =
  original_indices :: "rat list"
  original_actual_values :: "rat list"
  original_predictions :: "rat list"

record projection_series =
  projection_indices :: "rat list"
  projection_predictions :: "rat list"

record predict_response =
  predictions :: "rat list"
  original :: original_series
  projection :: projection_series

record model_info =
  info_id :: nat
  info_file_id :: nat

record custom_prediction =
  index :: rat
  prediction :: "rat option"

text \<open>
  The \<^verbatim>\<open>useState\<close> cells of the page; the cell that the source calls \<^verbatim>\<open>predictions\<close> is
  \<open>predictions_state\<close> here, the cells \<^verbatim>\<open>model\<close>, \<^verbatim>\<open>loading\<close> and \<^verbatim>\<open>error\<close> carry the
  prefix \<open>results\<close>.
\<close>

record model_results =
  results_model :: "model_info option"
  fileData :: "uploaded_file option"
  predictions_state :: "predict_response option"
  predictionInput :: string
  customPrediction :: "custom_prediction option"
  results_loading :: bool
  predicting :: bool
  results_error :: "string option"

definition js_index :: "'a list \<Rightarrow> nat \<Rightarrow> 'a option" where
  "js_index xs i = (if i < length xs then Some (xs ! i) else None)"

text \<open>
  \<^verbatim>\<open>mlModelService.predict\<close>. The backend is a parameter: a function from the request's
  path and body to its answer.
\<close>

definition mlModelService_predict ::
    "(string \<Rightarrow> rat list option \<Rightarrow> axios_error + predict_response) \<Rightarrow>
     browser \<Rightarrow> string \<Rightarrow> rat list option \<Rightarrow> browser \<times> (axios_error + predict_response)" where
  "mlModelService_predict backend b modelId predictionData =
     nissan_response_interceptor b (backend (''/models/'' @ modelId @ ''/predict'') predictionData)"

text \<open>
  \<^verbatim>\<open>loadModelData\<close>, which the mount effect calls when \<^verbatim>\<open>modelId\<close> is not empty: the
  model, then the file the model names, then the predictions, each stored as it arrives;
  the first rejected request ends the sequence with an error message. \<open>model_answer\<close> is
  the backend's answer to \<^verbatim>\<open>GET /models/{id}\<close>, \<open>file_backend\<close> answers
  \<^verbatim>\<open>GET /files/{file_id}\<close>.
\<close>

definition loadModelData ::
    "axios_error + model_info \<Rightarrow> (nat \<Rightarrow> axios_error + uploaded_file) \<Rightarrow>
     (string \<Rightarrow> rat list option \<Rightarrow> axios_error + predict_response) \<Rightarrow>
     string \<Rightarrow> browser \<Rightarrow> model_results \<Rightarrow> browser \<times> model_results" where
  "loadModelData model_answer file_backend backend modelId b st =
     (if modelId = [] then (b, st)
      else
        (let st0 = st\<lparr>results_loading := True, results_error := None\<rparr> in
         case nissan_response_interceptor b model_answer of
           (b1, Inl err) \<Rightarrow>
             (b1, st0\<lparr>results_error := Some (detail_or err ''Error al cargar datos del modelo''),
                      results_loading := False\<rparr>)
         | (b1, Inr modelInfo) \<Rightarrow>
             (let st1 = st0\<lparr>results_model := Some modelInfo\<rparr> in
              case nissan_response_interceptor b1 (file_backend (info_file_id modelInfo)) of
                (b2, Inl err) \<Rightarrow>
                  (b2, st1\<lparr>results_error := Some (detail_or err ''Error al cargar datos del modelo''),
                           results_loading := False\<rparr>)
              | (b2, Inr fileInfo) \<Rightarrow>
                  (let st2 = st1\<lparr>fileData := Some fileInfo\<rparr> in
                   case mlModelService_predict backend b2 modelId None of
                     (b3, Inl err) \<Rightarrow>
                       (b3, st2\<lparr>results_error :=
                                  Some (detail_or err ''Error al cargar datos del modelo''),
                                results_loading := False\<rparr>)
                   | (b3, Inr predictionData) \<Rightarrow>
                       (b3, st2\<lparr>predictions_state := Some predictionData,
                                results_loading := False\<rparr>)))))"

text \<open>
  \<^verbatim>\<open>handlePredict\<close>. \<^verbatim>\<open>parseFloat\<close> is JavaScript's and a parameter here; it answers
  \<open>None\<close> for \<^verbatim>\<open>NaN\<close>. The input is refused when it is empty or does not parse.
\<close>

definition handlePredict ::
    "(string \<Rightarrow> rat option) \<Rightarrow> (string \<Rightarrow> rat list option \<Rightarrow> axios_error + predict_response) \<Rightarrow>
     string \<Rightarrow> browser \<Rightarrow> model_results \<Rightarrow> browser \<times> model_results" where
  "handlePredict parseFloat backend modelId b st =
     (if predictionInput st = [] \<or> parseFloat (predictionInput st) = None then
        (b, st\<lparr>results_error := Some ''Ingresa un valor numerico valido'', predicting := False\<rparr>)
      else
        (let x = the (parseFloat (predictionInput st)) in
         case mlModelService_predict backend b modelId (Some [x]) of
           (b1, Inr result) \<Rightarrow>
             (b1, st\<lparr>results_error := None,
                     customPrediction := Some \<lparr>index = x,
                                                prediction = js_index (predictions result) 0\<rparr>,
                     predicting := False\<rparr>)
         | (b1, Inl err) \<Rightarrow>
             (b1, st\<lparr>results_error := Some (detail_or err ''Error al realizar prediccion''),
                     predicting := False\<rparr>)))"

text \<open>
  \<^verbatim>\<open>prepareChartData\<close>: the labels and the two datasets (\<^verbatim>\<open>Valores Reales\<close> and
  \<^verbatim>\<open>Predicciones\<close>) of the chart of the test data and of the chart with the projection.
  In the second the real values are padded with one \<^verbatim>\<open>null\<close> per projected index and
  the projected predictions follow the predictions on the test data. The page draws the
  second chart.
\<close>

record line_chart =
  labels :: "rat list"
  real_data :: "rat option list"
  predicted_data :: "rat list"

record chart_data =
  chart_original :: line_chart
  chart_projection :: line_chart

definition prepareChartData :: "predict_response option \<Rightarrow> chart_data option" where
  "prepareChartData ps =
     (case ps of
        None \<Rightarrow> None
      | Some p \<Rightarrow>
          Some \<lparr>chart_original =
                   \<lparr>labels = original_indices (original p),
                    real_data = map Some (original_actual_values (original p)),
                    predicted_data = original_predictions (original p)\<rparr>,
                chart_projection =
                   \<lparr>labels = original_indices (original p) @ projection_indices (projection p),
                    real_data = map Some (original_actual_values (original p))
                                @ replicate (length (projection_indices (projection p))) None,
                    predicted_data = original_predictions (original p)
                                     @ projection_predictions (projection p)\<rparr>\<rparr>)"

definition drawn_chart :: "model_results \<Rightarrow> line_chart option" where
  "drawn_chart st = map_option chart_projection (prepareChartData (predictions_state st))"

text \<open>
  The rows of the table of detailed results, one per element of \<^verbatim>\<open>original.indices\<close>:
  the index, \<^verbatim>\<open>actual_values[i]\<close>, \<^verbatim>\<open>predictions[i]\<close> and
  \<^verbatim>\<open>Math.abs(actual - prediction)\<close>, which is \<^verbatim>\<open>NaN\<close> (\<open>None\<close>) when one of the two
  is undefined. The cells show these numbers through \<^verbatim>\<open>toFixed\<close>, which is not part of
  the model.
\<close>

record result_row =
  row_index :: rat
  row_actual :: "rat option"
  row_prediction :: "rat option"
  row_error :: "rat option"

definition js_abs_diff :: "rat option \<Rightarrow> rat option \<Rightarrow> rat option" where
  "js_abs_diff a b =
     (case a of
        None \<Rightarrow> None
      | Some x \<Rightarrow> (case b of None \<Rightarrow> None | Some y \<Rightarrow> Some \<bar>x - y\<bar>))"

definition results_table :: "predict_response option \<Rightarrow> result_row list" where
  "results_table ps =
     (case ps of
        None \<Rightarrow> []
      | Some p \<Rightarrow>
          map (\<lambda>(index, i).
                 (let actual = js_index (original_actual_values (original p)) i;
                      prediction = js_index (original_predictions (original p)) i
                  in \<lparr>row_index = index, row_actual = actual, row_prediction = prediction,
                      row_error = js_abs_diff actual prediction\<rparr>))
              (zip (original_indices (original p))
                   [0..<length (original_indices (original p))]))"

section \<open>EV battery predictor: the dashboard's quick stats\<close>

text \<open>
  A battery reading as the backend sends it. \<^verbatim>\<open>state_of_health\<close> is a required field
  of a reading, so the key is always there; its value is a JSON number, or \<^verbatim>\<open>null\<close>
  (\<open>None\<close>). In a relational comparison JavaScript reads \<^verbatim>\<open>null\<close> as 0.
\<close>

record battery_reading =
  state_of_health :: "rat option"
  measurement_timestamp :: string

definition js_number :: "rat option \<Rightarrow> rat" where
  "js_number v = (case v of None \<Rightarrow> 0 | Some x \<Rightarrow> x)"

definition healthy_readings :: "battery_reading list \<Rightarrow> nat" where
  "healthy_readings recentData =
     length (filter (\<lambda>d. js_number (state_of_health d) > 80) recentData)"

definition warning_readings :: "battery_reading list \<Rightarrow> nat" where
  "warning_readings recentData =
     length (filter (\<lambda>d. js_number (state_of_health d) \<le> 80) recentData)"

text \<open>
  The two counts of the Quick Stats card, shown when there is at least one recent reading
  (\<open>None\<close> stands for the text \<^verbatim>\<open>No data available\<close>).
\<close>

definition quick_stats :: "battery_reading list \<Rightarrow> (nat \<times> nat) option" where
  "quick_stats recentData =
     (if length recentData > 0
      then Some (healthy_readings recentData, warning_readings recentData)
      else None)"

section \<open>Polling for training status\<close>

subsection \<open>Nissan \<^verbatim>\<open>ModelsList\<close>: the refresh interval\<close>

text \<open>
  \<^verbatim>\<open>loadModels\<close> in two halves: sending the request, and the arrival of its answer.
\<close>

definition loadModels_start :: "models_list \<Rightarrow> models_list" where
  "loadModels_start st =
     st\<lparr>models_loading := True, models_error := None, requests := requests st @ [fileId st]\<rparr>"

definition loadModels_finish :: "axios_error + ml_model list \<Rightarrow> models_list \<Rightarrow> models_list" where
  "loadModels_finish answer st =
     (case answer of
        Inr modelsData \<Rightarrow> st\<lparr>models := modelsData, models_loading := False\<rparr>
      | Inl err \<Rightarrow> st\<lparr>models_error := Some (detail_or err ''Error al cargar modelos''),
                       models_loading := False\<rparr>)"

definition hasTrainingModels :: "ml_model list \<Rightarrow> bool" where
  "hasTrainingModels ms =
     list_ex (\<lambda>model. training_status model = ''pending'' \<or> training_status model = ''training'') ms"

text \<open>The \<^verbatim>\<open>useState\<close> defaults of a fresh component.\<close>

definition models_initial :: "nat option \<Rightarrow> models_list" where
  "models_initial fid =
     \<lparr>fileId = fid, models = [], models_loading = True, models_error = None,
      models_deleteDialogOpen = False, modelToDelete = None, models_deleting = False,
      interval = None, closure_models = [], requests = []\<rparr>"

text \<open>
  The effect: \<^verbatim>\<open>loadModels()\<close>, then \<^verbatim>\<open>setInterval(..., 5000)\<close> with a callback that
  closes over the \<^verbatim>\<open>models\<close> of the render the effect belongs to. Its cleanup clears the
  interval. The effect runs after the first render and after a render with a new
  \<^verbatim>\<open>fileId\<close>, the old cleanup first.
\<close>

definition models_effect :: "nat \<Rightarrow> models_list \<Rightarrow> models_list" where
  "models_effect now st =
     (loadModels_start st)\<lparr>interval := Some (setInterval now 5000), closure_models := models st\<rparr>"

definition models_cleanup :: "models_list \<Rightarrow> models_list" where
  "models_cleanup st = st\<lparr>interval := None\<rparr>"

definition models_tick :: "models_list \<Rightarrow> models_list" where
  "models_tick st =
     (case interval st of
        None \<Rightarrow> st
      | Some t \<Rightarrow>
          (let st1 = st\<lparr>interval := Some (rearm t)\<rparr> in
           if hasTrainingModels (closure_models st1) then loadModels_start st1 else st1))"

datatype models_event =
    Mount "nat option" nat
  | Tick
  | Loaded "axios_error + ml_model list"
  | FileIdChanged "nat option" nat
  | Unmount

fun models_step :: "models_event \<Rightarrow> models_list \<Rightarrow> models_list" where
  "models_step (Mount fid now) st = models_effect now (models_initial fid)"
| "models_step Tick st = models_tick st"
| "models_step (Loaded answer) st = loadModels_finish answer st"
| "models_step (FileIdChanged fid now) st = models_effect now ((models_cleanup st)\<lparr>fileId := fid\<rparr>)"
| "models_step Unmount st = models_cleanup st"

definition models_run :: "models_event list \<Rightarrow> models_list \<Rightarrow> models_list" where
  "models_run evs st = fold models_step evs st"

subsection \<open>EV \<^verbatim>\<open>Models\<close> page: polling after a training request\<close>

text \<open>
  The part of the page's state that \<^verbatim>\<open>handleTrainModel\<close> touches, for one training
  request: the \<^verbatim>\<open>trainingModel\<close> cell, the polling interval, the time at which the
  one-shot \<^verbatim>\<open>setTimeout\<close> is due, and how often \<^verbatim>\<open>loadModels\<close> was called by the poll.
  One tick of the interval is taken together with the answer to its request.
\<close>

record ev_model =
  ev_model_id :: nat
  is_trained :: bool

record ev_models_page =
  trainingModel :: "nat option"
  pollInterval :: "interval_timer option"
  stopTimeout :: "nat option"
  reloads :: nat

definition ev_handleTrainModel ::
    "nat \<Rightarrow> nat \<Rightarrow> axios_error + unit \<Rightarrow> ev_models_page \<Rightarrow> ev_models_page" where
  "ev_handleTrainModel now modelId answer st =
     (case answer of
        Inr _ \<Rightarrow> st\<lparr>trainingModel := Some modelId,
                     pollInterval := Some (setInterval now 5000),
                     stopTimeout := Some (now + 300000)\<rparr>
      | Inl err \<Rightarrow> st\<lparr>trainingModel := None\<rparr>)"

definition ev_poll :: "axios_error + ev_model \<Rightarrow> ev_models_page \<Rightarrow> ev_models_page" where
  "ev_poll answer st =
     (case pollInterval st of
        None \<Rightarrow> st
      | Some t \<Rightarrow>
          (case answer of
             Inr data \<Rightarrow>
               (if is_trained data
                then st\<lparr>pollInterval := None, trainingModel := None, reloads := reloads st + 1\<rparr>
                else st\<lparr>pollInterval := Some (rearm t)\<rparr>)
           | Inl err \<Rightarrow> st\<lparr>pollInterval := None, trainingModel := None\<rparr>))"

definition ev_stop_timeout :: "ev_models_page \<Rightarrow> ev_models_page" where
  "ev_stop_timeout st = st\<lparr>pollInterval := None, trainingModel := None, stopTimeout := None\<rparr>"

subsection \<open>Nissan \<^verbatim>\<open>ModelTraining\<close>: polling after a training request\<close>

record model_training =
  index_column :: string
  target_column :: string
  training :: bool
  training_error :: "string option"
  trainingResult :: "ml_model option"
  activeStep :: nat
  pollingInterval :: "interval_timer option"

definition training_handleTrainModel ::
    "nat \<Rightarrow> axios_error + ml_model \<Rightarrow> model_training \<Rightarrow> model_training" where
  "training_handleTrainModel now answer st =
     (if index_column st = [] \<or> target_column st = [] then
        st\<lparr>training_error := Some ''Debes seleccionar columnas de indice y objetivo'',
           training := False\<rparr>
      else
        (case answer of
           Inr result \<Rightarrow>
             st\<lparr>training := True, training_error := None, trainingResult := Some result,
                activeStep := 1, pollingInterval := Some (setInterval now 3000)\<rparr>
         | Inl err \<Rightarrow>
             st\<lparr>training_error := Some (detail_or err ''Error al entrenar modelo''),
                training := False\<rparr>))"

text \<open>
  One tick of the training form's interval with the answer to its request. A rejected
  request is written to the console and nothing else happens.
\<close>

definition training_poll :: "axios_error + ml_model \<Rightarrow> model_training \<Rightarrow> model_training" where
  "training_poll answer st =
     (case pollingInterval st of
        None \<Rightarrow> st
      | Some t \<Rightarrow>
          (case answer of
             Inr modelInfo \<Rightarrow>
               (if training_status modelInfo = ''completed'' \<or> training_status modelInfo = ''failed''
                then st\<lparr>pollingInterval := None, trainingResult := Some modelInfo,
                        training_error :=
                          (if training_status modelInfo = ''failed''
                           then Some ''El entrenamiento del modelo fallo. Por favor, intenta con diferentes parametros.''
                           else training_error st)\<rparr>
                else st\<lparr>pollingInterval := Some (rearm t)\<rparr>)
           | Inl err \<Rightarrow> st\<lparr>pollingInterval := Some (rearm t)\<rparr>))"

section \<open>EV battery predictor: forecasts and prediction history\<close>

subsection \<open>The \<^verbatim>\<open>Predictions\<close> page\<close>

text \<open>
  The answer to \<^verbatim>\<open>POST /predictions/soh-forecast\<close>: the predicted state of health per
  step with the steps' timestamps, and under \<^verbatim>\<open>threshold_crossings\<close> an object keyed by
  threshold name. The body of the request is the selected model with 730 steps of 7 days.
\<close>

record crossing =
  crossing_timestamp :: string
  days_from_start :: rat
  crossing_soh :: rat

record forecast =
  forecast_predictions :: "rat list"
  timestamps :: "string list"
  current_soh :: rat
  threshold_crossings :: "string \<rightharpoonup> crossing"

record forecast_request =
  request_model_id :: nat
  prediction_steps :: nat
  time_step_days :: nat

record model_metrics =
  r2_score :: "rat option"
  rmse :: "rat option"
  mae :: "rat option"
  mape :: "rat option"

record predictions_page =
  selectedModel :: "nat option"
  forecast_state :: "forecast option"
  metrics_state :: "model_metrics option"
  page_loading :: bool
  page_error :: string

text \<open>
  \<^verbatim>\<open>generateForecast\<close>. It returns at once when no model is selected (\<^verbatim>\<open>!selectedModel\<close>
  also holds for the id 0). The forecast and the metrics are stored only after both
  requests were answered; a rejected request leaves the message and nothing else.
\<close>

definition generateForecast ::
    "(forecast_request \<Rightarrow> axios_error + forecast) \<Rightarrow> (nat \<Rightarrow> axios_error + model_metrics) \<Rightarrow>
     browser \<Rightarrow> predictions_page \<Rightarrow> browser \<times> predictions_page" where
  "generateForecast forecast_backend metrics_backend b st =
     (case selectedModel st of
        None \<Rightarrow> (b, st)
      | Some m \<Rightarrow>
          (if m = 0 then (b, st)
           else
             (let st0 = st\<lparr>page_loading := True, page_error := []\<rparr> in
              case ev_response_interceptor b
                     (forecast_backend \<lparr>request_model_id = m, prediction_steps = 730,
                                         time_step_days = 7\<rparr>) of
                (b1, Inl err) \<Rightarrow>
                  (b1, st0\<lparr>page_error := ''Failed to generate forecast'', page_loading := False\<rparr>)
              | (b1, Inr forecastData) \<Rightarrow>
                  (case ev_response_interceptor b1 (metrics_backend m) of
                     (b2, Inl err) \<Rightarrow>
                       (b2, st0\<lparr>page_error := ''Failed to generate forecast'',
                                page_loading := False\<rparr>)
                   | (b2, Inr metricsData) \<Rightarrow>
                       (b2, st0\<lparr>forecast_state := Some forecastData,
                                metrics_state := Some metricsData,
                                page_loading := False\<rparr>)))))"

text \<open>
  \<^verbatim>\<open>formatChartData\<close>: one point per predicted value, with the timestamp of the same
  position. The point's third field, the timestamp in the browser's locale, is left out.
\<close>

record chart_point =
  point_date :: "string option"
  soh :: rat

definition formatChartData :: "forecast option \<Rightarrow> chart_point list" where
  "formatChartData fc =
     (case fc of
        None \<Rightarrow> []
      | Some f \<Rightarrow>
          map (\<lambda>(soh, index). \<lparr>point_date = js_index (timestamps f) index, soh = soh\<rparr>)
              (zip (forecast_predictions f) [0..<length (forecast_predictions f)]))"

text \<open>
  \<^verbatim>\<open>getThresholdInfo\<close>: for each of the three thresholds, whether the forecast crosses
  it and, if so, the crossing's day count and state of health as the backend sent them.
  The date is kept as sent (the source puts it in the browser's locale), and the state of
  health is the number that \<^verbatim>\<open>toFixed(1)\<close> is applied to.
\<close>

record threshold_info =
  threshold :: string
  crossed :: bool
  info_date :: "string option"
  daysFromNow :: "rat option"
  info_soh :: "rat option"

definition getThresholdInfo :: "(string \<rightharpoonup> crossing) \<Rightarrow> threshold_info list" where
  "getThresholdInfo crossings =
     map (\<lambda>threshold.
            (let crossing = crossings threshold in
             \<lparr>threshold = threshold,
              crossed = (crossing \<noteq> None),
              info_date = map_option crossing_timestamp crossing,
              daysFromNow = map_option days_from_start crossing,
              info_soh = map_option crossing_soh crossing\<rparr>))
         [''70%'', ''50%'', ''20%'']"

subsection \<open>The \<^verbatim>\<open>ModelDetail\<close> page\<close>

record history_entry =
  created_at :: string
  predicted_soh :: "rat option"
  actual_soh :: "rat option"

record vehicle =
  vehicle_id :: nat
  vehicle_name :: string

record model_detail =
  detail_model :: "ev_model option"
  detail_vehicle :: "vehicle option"
  detail_metrics :: "model_metrics option"
  predictionHistory :: "history_entry list"
  detail_loading :: bool
  detail_error :: string

text \<open>
  \<^verbatim>\<open>loadModelDetails\<close>: the model, its vehicle and, for a trained model, the metrics and
  then the prediction history. A rejected metrics or history request is written to the
  console and ends the inner block; a rejected model or vehicle request leaves the message
  that \<^verbatim>\<open>formatErrorMessage\<close> makes of it.
\<close>

definition loadModelDetails ::
    "axios_error + ev_model \<Rightarrow> axios_error + vehicle \<Rightarrow> axios_error + model_metrics \<Rightarrow>
     axios_error + history_entry list \<Rightarrow> browser \<Rightarrow> model_detail \<Rightarrow> browser \<times> model_detail" where
  "loadModelDetails model_answer vehicle_answer metrics_answer history_answer b st =
     (let st0 = st\<lparr>detail_loading := True, detail_error := []\<rparr> in
      case ev_response_interceptor b model_answer of
        (b1, Inl err) \<Rightarrow>
          (b1, st0\<lparr>detail_error := detail_or err ''Failed to load model details'',
                   detail_loading := False\<rparr>)
      | (b1, Inr modelData) \<Rightarrow>
          (let st1 = st0\<lparr>detail_model := Some modelData\<rparr> in
           case ev_response_interceptor b1 vehicle_answer of
             (b2, Inl err) \<Rightarrow>
               (b2, st1\<lparr>detail_error := detail_or err ''Failed to load model details'',
                        detail_loading := False\<rparr>)
           | (b2, Inr vehicleData) \<Rightarrow>
               (let st2 = st1\<lparr>detail_vehicle := Some vehicleData\<rparr> in
                if is_trained modelData then
                  (case ev_response_interceptor b2 metrics_answer of
                     (b3, Inl err) \<Rightarrow> (b3, st2\<lparr>detail_loading := False\<rparr>)
                   | (b3, Inr metricsData) \<Rightarrow>
                       (let st3 = st2\<lparr>detail_metrics := Some metricsData\<rparr> in
                        case ev_response_interceptor b3 history_answer of
                          (b4, Inl err) \<Rightarrow> (b4, st3\<lparr>detail_loading := False\<rparr>)
                        | (b4, Inr historyData) \<Rightarrow>
                            (b4, st3\<lparr>predictionHistory := historyData,
                                     detail_loading := False\<rparr>)))
                else (b2, st2\<lparr>detail_loading := False\<rparr>))))"

text \<open>
  The cells of one row of the history table, as the numbers their \<^verbatim>\<open>render\<close> functions
  format: the predicted value as it is; the actual value when it is truthy (a number other
  than 0), else \<^verbatim>\<open>N/A\<close> (\<open>None\<close>); the absolute error when both are truthy.
\<close>

record history_cells =
  cell_predicted :: "rat option"
  cell_actual :: "rat option"
  cell_error :: "rat option"

definition truthy_number :: "rat option \<Rightarrow> bool" where
  "truthy_number v = (case v of None \<Rightarrow> False | Some x \<Rightarrow> x \<noteq> 0)"

definition history_row :: "history_entry \<Rightarrow> history_cells" where
  "history_row entry =
     \<lparr>cell_predicted = predicted_soh entry,
      cell_actual = (if truthy_number (actual_soh entry) then actual_soh entry else None),
      cell_error = (if truthy_number (actual_soh entry) \<and> truthy_number (predicted_soh entry)
                    then js_abs_diff (actual_soh entry) (predicted_soh entry)
                    else None)\<rparr>"

section \<open>Request authorisation\<close>

lemma truthy_iff: "truthy v \<longleftrightarrow> (\<exists>t. v = Some t \<and> t \<noteq> [])"
  by (cases v) (simp_all add: truthy_def)

text \<open>
  C5. Every request issued through either shared client carries the header
  \<^verbatim>\<open>Authorization\<close> with the value \<^verbatim>\<open>Bearer\<close>, a space and the token currently in
  localStorage when a token (a non-empty string) is stored under \<^verbatim>\<open>token\<close>, and carries
  no \<^verbatim>\<open>Authorization\<close> header when the store holds nothing under that key (or the
  empty string, which JavaScript takes for no token).
\<close>

theorem request_carries_bearer_token:
  "(getItem ls ''token'' = Some t \<and> t \<noteq> [] \<longrightarrow>
      headers (nissan_request_interceptor ls (client_request u ct form)) ''Authorization''
        = Some (''Bearer '' @ t)
      \<and> headers (ev_request_interceptor ls (client_request u ct form)) ''Authorization''
        = Some (''Bearer '' @ t))
   \<and> (getItem ls ''token'' = None \<or> getItem ls ''token'' = Some [] \<longrightarrow>
      headers (nissan_request_interceptor ls (client_request u ct form)) ''Authorization'' = None
      \<and> headers (ev_request_interceptor ls (client_request u ct form)) ''Authorization'' = None)"
  by (simp add: nissan_request_interceptor_def ev_request_interceptor_def client_request_def
        truthy_def js_string_def Let_def)

theorem request_carries_bearer_token_witness:
  "getItem [''token'' \<mapsto> ''abc''] ''token'' = Some ''abc'' \<and> ''abc'' \<noteq> []
   \<and> headers (nissan_request_interceptor [''token'' \<mapsto> ''abc'']
         (client_request ''/files/list'' None False)) ''Authorization'' = Some ''Bearer abc''
   \<and> headers (ev_request_interceptor [''token'' \<mapsto> ''abc'']
         (client_request ''/vehicles'' None False)) ''Authorization'' = Some ''Bearer abc''
   \<and> getItem Map.empty ''token'' = None
   \<and> headers (nissan_request_interceptor Map.empty
         (client_request ''/files/upload'' (Some ''multipart/form-data'') True)) ''Authorization'' = None
   \<and> headers (ev_request_interceptor Map.empty
         (client_request ''/auth/login'' None True)) ''Authorization'' = None"
  using request_carries_bearer_token [of "[''token'' \<mapsto> ''abc'']" "''abc''" "''/files/list''" None False]
    request_carries_bearer_token [of "[''token'' \<mapsto> ''abc'']" "''abc''" "''/vehicles''" None False]
    request_carries_bearer_token [of Map.empty "''x''" "''/files/upload''" "Some ''multipart/form-data''" True]
    request_carries_bearer_token [of Map.empty "''x''" "''/auth/login''" None True]
  by (simp add: getItem_def)

section \<open>Authentication errors\<close>

text \<open>
  C8. In both frontends a rejected response with status 401 removes the token from
  localStorage (every other key is kept), sends the window to \<^verbatim>\<open>/login\<close> and is still
  rejected to the caller; a rejected response with any other status, or with no response
  at all, leaves the browser as it was and is rejected as well.
\<close>

theorem unauthorized_response_drops_token:
  "(response e = Some r \<and> status r = 401 \<longrightarrow>
      nissan_response_interceptor b (Inl e :: axios_error + 'a)
        = (b\<lparr>localStorage := (localStorage b)(''token'' := None), href := ''/login''\<rparr>, Inl e)
      \<and> ev_response_interceptor b (Inl e :: axios_error + 'a)
        = (b\<lparr>localStorage := (localStorage b)(''token'' := None), href := ''/login''\<rparr>, Inl e))
   \<and> (\<not> (\<exists>r. response e = Some r \<and> status r = 401) \<longrightarrow>
      nissan_response_interceptor b (Inl e :: axios_error + 'a) = (b, Inl e)
      \<and> ev_response_interceptor b (Inl e :: axios_error + 'a) = (b, Inl e))"
  by (cases "response e")
     (auto simp: nissan_response_interceptor_def ev_response_interceptor_def removeItem_def)

theorem unauthorized_response_drops_token_witness:
  "response \<lparr>response = Some \<lparr>status = 401, detail = None\<rparr>, message = ''Unauthorized''\<rparr>
      = Some \<lparr>status = 401, detail = None\<rparr>
   \<and> status \<lparr>status = 401, detail = None\<rparr> = 401
   \<and> localStorage (fst (nissan_response_interceptor
         \<lparr>localStorage = [''token'' \<mapsto> ''abc'', ''theme'' \<mapsto> ''dark''], href = ''/models''\<rparr>
         (Inl \<lparr>response = Some \<lparr>status = 401, detail = None\<rparr>, message = ''Unauthorized''\<rparr>
            :: axios_error + unit))) ''token'' = None
   \<and> href (fst (ev_response_interceptor
         \<lparr>localStorage = [''token'' \<mapsto> ''abc'', ''theme'' \<mapsto> ''dark''], href = ''/models''\<rparr>
         (Inl \<lparr>response = Some \<lparr>status = 401, detail = None\<rparr>, message = ''Unauthorized''\<rparr>
            :: axios_error + unit))) = ''/login''
   \<and> \<not> (\<exists>r. response \<lparr>response = Some \<lparr>status = 500, detail = None\<rparr>, message = ''Server''\<rparr> = Some r
            \<and> status r = 401)
   \<and> localStorage (fst (nissan_response_interceptor
         \<lparr>localStorage = [''token'' \<mapsto> ''abc''], href = ''/models''\<rparr>
         (Inl \<lparr>response = Some \<lparr>status = 500, detail = None\<rparr>, message = ''Server''\<rparr>
            :: axios_error + unit))) ''token'' = Some ''abc''
   \<and> localStorage (fst (ev_response_interceptor
         \<lparr>localStorage = [''token'' \<mapsto> ''abc''], href = ''/models''\<rparr>
         (Inl \<lparr>response = Some \<lparr>status = 500, detail = None\<rparr>, message = ''Server''\<rparr>
            :: axios_error + unit))) ''token'' = Some ''abc''"
  using unauthorized_response_drops_token
      [of "\<lparr>response = Some \<lparr>status = 401, detail = None\<rparr>, message = ''Unauthorized''\<rparr>"
          "\<lparr>status = 401, detail = None\<rparr>"
          "\<lparr>localStorage = [''token'' \<mapsto> ''abc'', ''theme'' \<mapsto> ''dark''], href = ''/models''\<rparr>",
       where ?'a = unit]
    unauthorized_response_drops_token
      [of "\<lparr>response = Some \<lparr>status = 500, detail = None\<rparr>, message = ''Server''\<rparr>"
          "\<lparr>status = 500, detail = None\<rparr>"
          "\<lparr>localStorage = [''token'' \<mapsto> ''abc''], href = ''/models''\<rparr>",
       where ?'a = unit]
  by simp

section \<open>The token store\<close>

text \<open>
  C4. Authentication state lives in localStorage under the single key \<^verbatim>\<open>token\<close>: a
  successful login stores exactly the backend's \<^verbatim>\<open>access_token\<close> under that key and
  touches no other key (a rejected login stores nothing), logout removes exactly that key,
  and \<^verbatim>\<open>authService.isAuthenticated\<close> answers true exactly when the key holds a token,
  that is a non-empty string. The same holds for \<^verbatim>\<open>login\<close> and \<^verbatim>\<open>logout\<close> of the EV
  frontend.
\<close>

theorem token_store_login_logout:
  "authService_login b (Inr d)
     = (b\<lparr>localStorage := (localStorage b)(''token'' \<mapsto> access_token d)\<rparr>, Inr d)
   \<and> authService_login b (Inl e) = (b, Inl e)
   \<and> authService_logout b = b\<lparr>localStorage := (localStorage b)(''token'' := None)\<rparr>
   \<and> (authService_isAuthenticated b
        \<longleftrightarrow> (\<exists>t. getItem (localStorage b) ''token'' = Some t \<and> t \<noteq> []))
   \<and> ev_login (Inr d) (Inr u) b st
     = (b\<lparr>localStorage := (localStorage b)(''token'' \<mapsto> access_token d)\<rparr>,
        st\<lparr>ev_user := Some u, isAuthenticated := True\<rparr>, True)
   \<and> fst (ev_logout b st) = b\<lparr>localStorage := (localStorage b)(''token'' := None)\<rparr>"
  by (simp add: authService_login_def authService_logout_def authService_isAuthenticated_def
        ev_login_def ev_logout_def ev_response_interceptor_def setItem_def removeItem_def
        truthy_iff)

theorem token_store_login_logout_witness:
  "localStorage (fst (authService_login \<lparr>localStorage = [''theme'' \<mapsto> ''dark''], href = ''/login''\<rparr>
        (Inr \<lparr>access_token = ''abc'', token_type = ''bearer''\<rparr>)))
     = [''theme'' \<mapsto> ''dark'', ''token'' \<mapsto> ''abc'']
   \<and> authService_isAuthenticated (fst (authService_login
        \<lparr>localStorage = [''theme'' \<mapsto> ''dark''], href = ''/login''\<rparr>
        (Inr \<lparr>access_token = ''abc'', token_type = ''bearer''\<rparr>)))
   \<and> \<not> authService_isAuthenticated (authService_logout
        \<lparr>localStorage = [''theme'' \<mapsto> ''dark'', ''token'' \<mapsto> ''abc''], href = ''/''\<rparr>)"
  using token_store_login_logout
      [of "\<lparr>localStorage = [''theme'' \<mapsto> ''dark''], href = ''/login''\<rparr>"
          "\<lparr>access_token = ''abc'', token_type = ''bearer''\<rparr>"]
    token_store_login_logout
      [of "\<lparr>localStorage = [''theme'' \<mapsto> ''dark''], href = ''/login''
             \<rparr>\<lparr>localStorage := [''theme'' \<mapsto> ''dark'', ''token'' \<mapsto> ''abc'']\<rparr>"]
    token_store_login_logout
      [of "\<lparr>localStorage = [''theme'' \<mapsto> ''dark'', ''token'' \<mapsto> ''abc''], href = ''/''\<rparr>"]
    token_store_login_logout
      [of "\<lparr>localStorage = [''theme'' \<mapsto> ''dark'', ''token'' \<mapsto> ''abc''], href = ''/''
             \<rparr>\<lparr>localStorage := [''theme'' \<mapsto> ''dark'', ''token'' \<mapsto> ''abc''](''token'' := None)\<rparr>"]
  by (simp add: getItem_def)

section \<open>Initialisation of the authentication context\<close>

text \<open>
  C3, as the code has it. In the Nissan frontend, on initialisation with a token in the
  store, the token's \<^verbatim>\<open>exp\<close> claim is compared with the current time in seconds: when
  the token cannot be decoded, or \<^verbatim>\<open>exp\<close> is earlier than now, the token is removed,
  the user is left unauthenticated and no request is sent; only otherwise is the profile
  requested, and a profile that arrives becomes the current user with the token kept.
  The EV frontend compares nothing on the client: with a token in the store it always
  requests the profile, keeps the token and authenticates when the profile arrives, and
  removes the token when the request is rejected.
\<close>

theorem initAuth_expiry_guard:
  assumes "getItem (localStorage b) ''token'' = Some t" and "t \<noteq> []"
  shows "(jwtDecode t = None \<or> (\<exists>p e. jwtDecode t = Some p \<and> exp_claim p = Some e
                                    \<and> e < of_int now_ms / 1000) \<longrightarrow>
            initAuth jwtDecode now_ms profile b st
              = (b\<lparr>localStorage := (localStorage b)(''token'' := None)\<rparr>,
                 st\<lparr>currentUser := None, loading := False\<rparr>, []))
         \<and> ((\<exists>p. jwtDecode t = Some p \<and> \<not> js_less (exp_claim p) (of_int now_ms / 1000)) \<longrightarrow>
            snd (snd (initAuth jwtDecode now_ms profile b st)) = [''/auth/me''])
         \<and> ((\<exists>p. jwtDecode t = Some p \<and> \<not> js_less (exp_claim p) (of_int now_ms / 1000)) \<longrightarrow>
            initAuth jwtDecode now_ms (Inr u) b st
              = (b, st\<lparr>currentUser := Some u, loading := False\<rparr>, [''/auth/me'']))
         \<and> ev_initAuth (Inr u) b est
              = (b, est\<lparr>ev_user := Some u, isAuthenticated := True, ev_loading := False\<rparr>,
                 [''/auth/me''])
         \<and> (localStorage (fst (ev_initAuth (Inl err) b est)) ''token'' = None
            \<and> snd (ev_initAuth (Inl err) b est) = (est\<lparr>ev_loading := False\<rparr>, [''/auth/me'']))"
  using assms
  by (auto simp: initAuth_def ev_initAuth_def truthy_def js_string_def js_less_def Let_def
        authService_getCurrentUser_def nissan_response_interceptor_def
        ev_response_interceptor_def removeItem_def
        split: option.splits sum.splits prod.splits)

theorem initAuth_expiry_guard_witness:
  "getItem (localStorage \<lparr>localStorage = [''token'' \<mapsto> ''old''], href = ''/''\<rparr>) ''token'' = Some ''old''
   \<and> ''old'' \<noteq> []
   \<and> (\<lambda>s. if s = ''old'' then Some \<lparr>exp_claim = Some 1, sub = ''u''\<rparr>
            else if s = ''new'' then Some \<lparr>exp_claim = Some 10, sub = ''u''\<rparr> else None) ''old''
       = Some \<lparr>exp_claim = Some 1, sub = ''u''\<rparr>
   \<and> (1::rat) < of_int 5000 / 1000
   \<and> initAuth (\<lambda>s. if s = ''old'' then Some \<lparr>exp_claim = Some 1, sub = ''u''\<rparr>
            else if s = ''new'' then Some \<lparr>exp_claim = Some 10, sub = ''u''\<rparr> else None)
         5000 (Inr \<lparr>user_id = 7, email = ''a@b.c''\<rparr>)
         \<lparr>localStorage = [''token'' \<mapsto> ''old''], href = ''/''\<rparr>
         \<lparr>currentUser = None, loading = True, error = None\<rparr>
       = (\<lparr>localStorage = Map.empty, href = ''/''\<rparr>,
          \<lparr>currentUser = None, loading = False, error = None\<rparr>, [])
   \<and> getItem (localStorage \<lparr>localStorage = [''token'' \<mapsto> ''new''], href = ''/''\<rparr>) ''token'' = Some ''new''
   \<and> ''new'' \<noteq> []
   \<and> \<not> js_less (exp_claim \<lparr>exp_claim = Some 10, sub = ''u''\<rparr>) (of_int 5000 / 1000)
   \<and> initAuth (\<lambda>s. if s = ''old'' then Some \<lparr>exp_claim = Some 1, sub = ''u''\<rparr>
            else if s = ''new'' then Some \<lparr>exp_claim = Some 10, sub = ''u''\<rparr> else None)
         5000 (Inr \<lparr>user_id = 7, email = ''a@b.c''\<rparr>)
         \<lparr>localStorage = [''token'' \<mapsto> ''new''], href = ''/''\<rparr>
         \<lparr>currentUser = None, loading = True, error = None\<rparr>
       = (\<lparr>localStorage = [''token'' \<mapsto> ''new''], href = ''/''\<rparr>,
          \<lparr>currentUser = Some \<lparr>user_id = 7, email = ''a@b.c''\<rparr>, loading = False, error = None\<rparr>,
          [''/auth/me''])
   \<and> ev_initAuth (Inr \<lparr>user_id = 7, email = ''a@b.c''\<rparr>)
         \<lparr>localStorage = [''token'' \<mapsto> ''new''], href = ''/''\<rparr>
         \<lparr>ev_user = None, ev_loading = True, isAuthenticated = False\<rparr>
       = (\<lparr>localStorage = [''token'' \<mapsto> ''new''], href = ''/''\<rparr>,
          \<lparr>ev_user = Some \<lparr>user_id = 7, email = ''a@b.c''\<rparr>, ev_loading = False,
             isAuthenticated = True\<rparr>, [''/auth/me''])"
  using initAuth_expiry_guard
      [of "\<lparr>localStorage = [''token'' \<mapsto> ''old''], href = ''/''\<rparr>" "''old''"
          "\<lambda>s. if s = ''old'' then Some \<lparr>exp_claim = Some 1, sub = ''u''\<rparr>
            else if s = ''new'' then Some \<lparr>exp_claim = Some 10, sub = ''u''\<rparr> else None"
          5000 "Inr \<lparr>user_id = 7, email = ''a@b.c''\<rparr>"
          "\<lparr>currentUser = None, loading = True, error = None\<rparr>"
          "\<lparr>user_id = 7, email = ''a@b.c''\<rparr>"
          "\<lparr>ev_user = None, ev_loading = True, isAuthenticated = False\<rparr>"]
    initAuth_expiry_guard
      [of "\<lparr>localStorage = [''token'' \<mapsto> ''new''], href = ''/''\<rparr>" "''new''"
          "\<lambda>s. if s = ''old'' then Some \<lparr>exp_claim = Some 1, sub = ''u''\<rparr>
            else if s = ''new'' then Some \<lparr>exp_claim = Some 10, sub = ''u''\<rparr> else None"
          5000 "Inr \<lparr>user_id = 7, email = ''a@b.c''\<rparr>"
          "\<lparr>currentUser = None, loading = True, error = None\<rparr>"
          "\<lparr>user_id = 7, email = ''a@b.c''\<rparr>"
          "\<lparr>ev_user = None, ev_loading = True, isAuthenticated = False\<rparr>"]
  by (simp add: getItem_def js_less_def)

text \<open>
  The claim as it was stated fails in the EV frontend: a token whose \<^verbatim>\<open>exp\<close> claim (1)
  lies before the current time (5 seconds) is removed by the Nissan \<^verbatim>\<open>initAuth\<close> without
  any request, while the EV provider requests the profile with it, keeps it in the store
  and marks the user authenticated.
\<close>

theorem ev_initAuth_keeps_expired_token:
  "js_less (exp_claim \<lparr>exp_claim = Some 1, sub = ''u''\<rparr>) (of_int 5000 / 1000)
   \<and> initAuth (\<lambda>s. Some \<lparr>exp_claim = Some 1, sub = ''u''\<rparr>)
         5000 (Inr \<lparr>user_id = 7, email = ''a@b.c''\<rparr>)
         \<lparr>localStorage = [''token'' \<mapsto> ''old''], href = ''/''\<rparr>
         \<lparr>currentUser = None, loading = True, error = None\<rparr>
       = (\<lparr>localStorage = Map.empty, href = ''/''\<rparr>,
          \<lparr>currentUser = None, loading = False, error = None\<rparr>, [])
   \<and> ev_initAuth (Inr \<lparr>user_id = 7, email = ''a@b.c''\<rparr>)
         \<lparr>localStorage = [''token'' \<mapsto> ''old''], href = ''/''\<rparr>
         \<lparr>ev_user = None, ev_loading = True, isAuthenticated = False\<rparr>
       = (\<lparr>localStorage = [''token'' \<mapsto> ''old''], href = ''/''\<rparr>,
          \<lparr>ev_user = Some \<lparr>user_id = 7, email = ''a@b.c''\<rparr>, ev_loading = False,
             isAuthenticated = True\<rparr>, [''/auth/me''])"
  by (simp add: initAuth_def ev_initAuth_def getItem_def removeItem_def truthy_def js_string_def
        js_less_def ev_response_interceptor_def)

section \<open>Deleting from a list view\<close>

lemma filter_others_remove1:
  "distinct (map f xs) \<Longrightarrow> x \<in> set xs \<Longrightarrow> filter (\<lambda>y. f y \<noteq> f x) xs = remove1 x xs"
proof (induction xs)
  case Nil
  then show ?case by simp
next
  case (Cons a xs)
  show ?case
  proof (cases "a = x")
    case True
    with Cons.prems have "f x \<notin> f ` set xs" by simp
    then have "\<forall>y\<in>set xs. f y \<noteq> f x" by (metis imageI)
    then have "filter (\<lambda>y. f y \<noteq> f x) xs = xs" by (simp add: filter_id_conv)
    with True show ?thesis by simp
  next
    case False
    with Cons.prems have "x \<in> set xs" and "f a \<noteq> f x" by auto
    with Cons False show ?thesis by auto
  qed
qed

text \<open>
  C9. A confirmed deletion changes the rendered list only when the backend accepted it.
  When the delete request is rejected the list of files (of models) is what it was; when
  it succeeds the new list is the old one without the entries whose id is the deleted
  item's, every other entry kept, in order. Where the ids in the list are distinct and the
  item is in the list, that is the old list with exactly that one entry taken out.
\<close>

theorem delete_confirm_updates_list:
  assumes "fileToDelete fs = Some f" and "modelToDelete ms = Some m"
  shows "files (snd (files_handleDeleteConfirm (Inl err) b fs)) = files fs
         \<and> models (snd (models_handleDeleteConfirm (Inl err) b ms)) = models ms
         \<and> files (snd (files_handleDeleteConfirm (Inr ()) b fs))
             = filter (\<lambda>x. file_id x \<noteq> file_id f) (files fs)
         \<and> models (snd (models_handleDeleteConfirm (Inr ()) b ms))
             = filter (\<lambda>x. model_id x \<noteq> model_id m) (models ms)
         \<and> (distinct (map file_id (files fs)) \<and> f \<in> set (files fs) \<longrightarrow>
             files (snd (files_handleDeleteConfirm (Inr ()) b fs)) = remove1 f (files fs))
         \<and> (distinct (map model_id (models ms)) \<and> m \<in> set (models ms) \<longrightarrow>
             models (snd (models_handleDeleteConfirm (Inr ()) b ms)) = remove1 m (models ms))"
  using assms
  by (auto simp: files_handleDeleteConfirm_def models_handleDeleteConfirm_def
        fileService_deleteFile_def mlModelService_deleteModel_def
        nissan_response_interceptor_def filter_others_remove1
        split: prod.splits sum.splits)

theorem delete_confirm_updates_list_witness:
  "fileToDelete
      \<lparr>files = [\<lparr>file_id = 1, original_filename = ''a.csv'', file_size = 10, is_processed = False\<rparr>,
        \<lparr>file_id = 2, original_filename = ''b.csv'', file_size = 10, is_processed = False\<rparr>,
        \<lparr>file_id = 3, original_filename = ''c.csv'', file_size = 10, is_processed = False\<rparr>],
       files_error = None, files_deleteDialogOpen = True,
       fileToDelete = Some \<lparr>file_id = 2, original_filename = ''b.csv'', file_size = 10, is_processed = False\<rparr>,
       files_deleting = False\<rparr>
     = Some \<lparr>file_id = 2, original_filename = ''b.csv'', file_size = 10, is_processed = False\<rparr>
   \<and> modelToDelete
      \<lparr>fileId = None,
       models = [\<lparr>model_id = 1, model_name = ''m1'', training_status = ''completed''\<rparr>,
        \<lparr>model_id = 2, model_name = ''m2'', training_status = ''failed''\<rparr>],
       models_loading = False, models_error = None, models_deleteDialogOpen = True,
       modelToDelete = Some \<lparr>model_id = 1, model_name = ''m1'', training_status = ''completed''\<rparr>,
       models_deleting = False, interval = None, closure_models = [], requests = [None]\<rparr>
     = Some \<lparr>model_id = 1, model_name = ''m1'', training_status = ''completed''\<rparr>
   \<and> distinct (map file_id [\<lparr>file_id = 1, original_filename = ''a.csv'', file_size = 10, is_processed = False\<rparr>,
        \<lparr>file_id = 2, original_filename = ''b.csv'', file_size = 10, is_processed = False\<rparr>,
        \<lparr>file_id = 3, original_filename = ''c.csv'', file_size = 10, is_processed = False\<rparr>])
   \<and> distinct (map model_id [\<lparr>model_id = 1, model_name = ''m1'', training_status = ''completed''\<rparr>,
        \<lparr>model_id = 2, model_name = ''m2'', training_status = ''failed''\<rparr>])
   \<and> files (snd (files_handleDeleteConfirm (Inl \<lparr>response = Some \<lparr>status = 500, detail = None\<rparr>, message = ''Server''\<rparr>) \<lparr>localStorage = [''token'' \<mapsto> ''abc''], href = ''/files''\<rparr>
      \<lparr>files = [\<lparr>file_id = 1, original_filename = ''a.csv'', file_size = 10, is_processed = False\<rparr>,
        \<lparr>file_id = 2, original_filename = ''b.csv'', file_size = 10, is_processed = False\<rparr>,
        \<lparr>file_id = 3, original_filename = ''c.csv'', file_size = 10, is_processed = False\<rparr>],
       files_error = None, files_deleteDialogOpen = True,
       fileToDelete = Some \<lparr>file_id = 2, original_filename = ''b.csv'', file_size = 10, is_processed = False\<rparr>,
       files_deleting = False\<rparr>))
     = [\<lparr>file_id = 1, original_filename = ''a.csv'', file_size = 10, is_processed = False\<rparr>,
        \<lparr>file_id = 2, original_filename = ''b.csv'', file_size = 10, is_processed = False\<rparr>,
        \<lparr>file_id = 3, original_filename = ''c.csv'', file_size = 10, is_processed = False\<rparr>]
   \<and> files (snd (files_handleDeleteConfirm (Inr ()) \<lparr>localStorage = [''token'' \<mapsto> ''abc''], href = ''/files''\<rparr>
      \<lparr>files = [\<lparr>file_id = 1, original_filename = ''a.csv'', file_size = 10, is_processed = False\<rparr>,
        \<lparr>file_id = 2, original_filename = ''b.csv'', file_size = 10, is_processed = False\<rparr>,
        \<lparr>file_id = 3, original_filename = ''c.csv'', file_size = 10, is_processed = False\<rparr>],
       files_error = None, files_deleteDialogOpen = True,
       fileToDelete = Some \<lparr>file_id = 2, original_filename = ''b.csv'', file_size = 10, is_processed = False\<rparr>,
       files_deleting = False\<rparr>))
     = [\<lparr>file_id = 1, original_filename = ''a.csv'', file_size = 10, is_processed = False\<rparr>,
        \<lparr>file_id = 3, original_filename = ''c.csv'', file_size = 10, is_processed = False\<rparr>]
   \<and> models (snd (models_handleDeleteConfirm (Inl \<lparr>response = Some \<lparr>status = 500, detail = None\<rparr>, message = ''Server''\<rparr>) \<lparr>localStorage = [''token'' \<mapsto> ''abc''], href = ''/files''\<rparr>
      \<lparr>fileId = None,
       models = [\<lparr>model_id = 1, model_name = ''m1'', training_status = ''completed''\<rparr>,
        \<lparr>model_id = 2, model_name = ''m2'', training_status = ''failed''\<rparr>],
       models_loading = False, models_error = None, models_deleteDialogOpen = True,
       modelToDelete = Some \<lparr>model_id = 1, model_name = ''m1'', training_status = ''completed''\<rparr>,
       models_deleting = False, interval = None, closure_models = [], requests = [None]\<rparr>))
     = [\<lparr>model_id = 1, model_name = ''m1'', training_status = ''completed''\<rparr>,
        \<lparr>model_id = 2, model_name = ''m2'', training_status = ''failed''\<rparr>]
   \<and> models (snd (models_handleDeleteConfirm (Inr ()) \<lparr>localStorage = [''token'' \<mapsto> ''abc''], href = ''/files''\<rparr>
      \<lparr>fileId = None,
       models = [\<lparr>model_id = 1, model_name = ''m1'', training_status = ''completed''\<rparr>,
        \<lparr>model_id = 2, model_name = ''m2'', training_status = ''failed''\<rparr>],
       models_loading = False, models_error = None, models_deleteDialogOpen = True,
       modelToDelete = Some \<lparr>model_id = 1, model_name = ''m1'', training_status = ''completed''\<rparr>,
       models_deleting = False, interval = None, closure_models = [], requests = [None]\<rparr>))
     = [\<lparr>model_id = 2, model_name = ''m2'', training_status = ''failed''\<rparr>]"
  using delete_confirm_updates_list
      [of "\<lparr>files = [\<lparr>file_id = 1, original_filename = ''a.csv'', file_size = 10, is_processed = False\<rparr>,
        \<lparr>file_id = 2, original_filename = ''b.csv'', file_size = 10, is_processed = False\<rparr>,
        \<lparr>file_id = 3, original_filename = ''c.csv'', file_size = 10, is_processed = False\<rparr>],
       files_error = None, files_deleteDialogOpen = True,
       fileToDelete = Some \<lparr>file_id = 2, original_filename = ''b.csv'', file_size = 10, is_processed = False\<rparr>,
       files_deleting = False\<rparr>"
          "\<lparr>file_id = 2, original_filename = ''b.csv'', file_size = 10, is_processed = False\<rparr>"
          "\<lparr>fileId = None,
       models = [\<lparr>model_id = 1, model_name = ''m1'', training_status = ''completed''\<rparr>,
        \<lparr>model_id = 2, model_name = ''m2'', training_status = ''failed''\<rparr>],
       models_loading = False, models_error = None, models_deleteDialogOpen = True,
       modelToDelete = Some \<lparr>model_id = 1, model_name = ''m1'', training_status = ''completed''\<rparr>,
       models_deleting = False, interval = None, closure_models = [], requests = [None]\<rparr>"
          "\<lparr>model_id = 1, model_name = ''m1'', training_status = ''completed''\<rparr>"
          "\<lparr>response = Some \<lparr>status = 500, detail = None\<rparr>, message = ''Server''\<rparr>" "\<lparr>localStorage = [''token'' \<mapsto> ''abc''], href = ''/files''\<rparr>"]
  by simp

section \<open>Predictions come from the backend\<close>

lemma js_index_upt: "map (js_index xs) [0..<length xs] = map Some xs"
  by (rule nth_equalityI) (simp_all add: js_index_def)

lemma results_table_predictions:
  "map row_prediction (results_table (Some r))
     = map (js_index (original_predictions (original r)))
           [0..<length (original_indices (original r))]"
proof -
  have rows: "map row_prediction (results_table (Some r))
          = map (js_index (original_predictions (original r)) \<circ> snd)
                (zip (original_indices (original r)) [0..<length (original_indices (original r))])"
    by (simp add: results_table_def Let_def split_def comp_def)
  have positions: "map snd (zip (original_indices (original r))
                                [0..<length (original_indices (original r))])
                     = [0..<length (original_indices (original r))]"
    by simp
  have "map (js_index (original_predictions (original r)) \<circ> snd)
            (zip (original_indices (original r)) [0..<length (original_indices (original r))])
          = map (js_index (original_predictions (original r)))
                (map snd (zip (original_indices (original r))
                              [0..<length (original_indices (original r))]))"
    by (simp only: map_map)
  with rows positions show ?thesis by (simp only:)
qed

lemma results_table_errors:
  "\<forall>row\<in>set (results_table ps). row_error row = js_abs_diff (row_actual row) (row_prediction row)"
  by (cases ps) (auto simp: results_table_def Let_def)

lemma formatChartData_soh: "map soh (formatChartData (Some f)) = forecast_predictions f"
proof -
  have "map soh (formatChartData (Some f))
          = map fst (zip (forecast_predictions f) [0..<length (forecast_predictions f)])"
    by (simp add: formatChartData_def split_def comp_def)
  then show ?thesis by simp
qed

lemma loadModelData_predictions:
  "(modelId \<noteq> [] \<and> model_answer = Inr mi \<and> file_backend (info_file_id mi) = Inr fi
      \<and> backend (''/models/'' @ modelId @ ''/predict'') None = Inr r \<longrightarrow>
      predictions_state (snd (loadModelData model_answer file_backend backend modelId b st)) = Some r)
   \<and> (modelId = [] \<or> (\<exists>e. model_answer = Inl e)
        \<or> (\<exists>mi e. model_answer = Inr mi \<and> file_backend (info_file_id mi) = Inl e)
        \<or> (\<exists>e. backend (''/models/'' @ modelId @ ''/predict'') None = Inl e) \<longrightarrow>
      predictions_state (snd (loadModelData model_answer file_backend backend modelId b st))
        = predictions_state st)"
  by (auto simp: loadModelData_def mlModelService_predict_def nissan_response_interceptor_def
        Let_def split: sum.splits prod.splits)

lemma generateForecast_forecast:
  "(selectedModel pg = Some m \<and> m \<noteq> 0
      \<and> forecast_backend \<lparr>request_model_id = m, prediction_steps = 730, time_step_days = 7\<rparr> = Inr f
      \<and> metrics_backend m = Inr mt \<longrightarrow>
      forecast_state (snd (generateForecast forecast_backend metrics_backend b pg)) = Some f)
   \<and> (selectedModel pg = None \<or> selectedModel pg = Some 0
        \<or> (\<exists>m e. selectedModel pg = Some m
              \<and> (forecast_backend \<lparr>request_model_id = m, prediction_steps = 730,
                                     time_step_days = 7\<rparr> = Inl e
                  \<or> metrics_backend m = Inl e)) \<longrightarrow>
      forecast_state (snd (generateForecast forecast_backend metrics_backend b pg))
        = forecast_state pg)"
  by (auto simp: generateForecast_def ev_response_interceptor_def Let_def
        split: option.splits sum.splits prod.splits)

lemma loadModelDetails_history:
  "(ev_model_answer = Inr md \<and> is_trained md \<and> vehicle_answer = Inr v
      \<and> metrics_answer = Inr mt \<and> history_answer = Inr h \<longrightarrow>
      predictionHistory (snd (loadModelDetails ev_model_answer vehicle_answer metrics_answer
                                history_answer b dt)) = h)
   \<and> (predictionHistory (snd (loadModelDetails ev_model_answer vehicle_answer metrics_answer
                                 history_answer b dt)) = predictionHistory dt
       \<or> history_answer = Inr (predictionHistory (snd (loadModelDetails ev_model_answer
                                 vehicle_answer metrics_answer history_answer b dt))))"
  by (auto simp: loadModelDetails_def ev_response_interceptor_def Let_def
        split: sum.splits prod.splits)

lemma handlePredict_prediction:
  "(predictionInput st \<noteq> [] \<and> parseFloat (predictionInput st) = Some x
      \<and> backend (''/models/'' @ modelId @ ''/predict'') (Some [x]) = Inr r \<longrightarrow>
      customPrediction (snd (handlePredict parseFloat backend modelId b st))
        = Some \<lparr>index = x, prediction = (case predictions r of [] \<Rightarrow> None | p # _ \<Rightarrow> Some p)\<rparr>)
   \<and> (predictionInput st = [] \<or> parseFloat (predictionInput st) = None
      \<or> (\<exists>x e. parseFloat (predictionInput st) = Some x
             \<and> backend (''/models/'' @ modelId @ ''/predict'') (Some [x]) = Inl e) \<longrightarrow>
      customPrediction (snd (handlePredict parseFloat backend modelId b st)) = customPrediction st)"
  by (auto simp: handlePredict_def mlModelService_predict_def nissan_response_interceptor_def
        js_index_def split: option.splits sum.splits list.splits)

lemma drawn_chart_predictions:
  "map_option predicted_data (drawn_chart st)
     = map_option (\<lambda>p. original_predictions (original p) @ projection_predictions (projection p))
         (predictions_state st)"
  by (cases "predictions_state st") (simp_all add: drawn_chart_def prepareChartData_def)

lemma results_table_complete:
  "length (original_predictions (original sr)) = length (original_indices (original sr)) \<longrightarrow>
   map row_prediction (results_table (Some sr)) = map Some (original_predictions (original sr))"
proof
  assume same: "length (original_predictions (original sr)) = length (original_indices (original sr))"
  have "map row_prediction (results_table (Some sr))
          = map (js_index (original_predictions (original sr)))
                [0..<length (original_predictions (original sr))]"
    unfolding same by (rule results_table_predictions)
  also have "\<dots> = map Some (original_predictions (original sr))"
    by (rule js_index_upt)
  finally show "map row_prediction (results_table (Some sr))
                  = map Some (original_predictions (original sr))" .
qed

lemma getThresholdInfo_soh:
  "map info_soh (getThresholdInfo cr)
     = map (\<lambda>th. map_option crossing_soh (cr th)) [''70%'', ''50%'', ''20%'']"
  by (simp add: getThresholdInfo_def Let_def)

lemma history_row_predicted:
  "cell_predicted (history_row entry) = predicted_soh entry
   \<and> (cell_error (history_row entry) \<noteq> None \<longrightarrow>
        cell_error (history_row entry) = js_abs_diff (actual_soh entry) (predicted_soh entry))"
  by (simp add: history_row_def)

text \<open>
  C6. The frontends compute no prediction of their own: every prediction value they put on
  display is a value of a backend answer, untouched apart from the formatting of the
  number.
  \<^item> Nissan results page, custom prediction: for an input that parses to \<open>x\<close>, the value
    shown is element 0 of the \<^verbatim>\<open>predictions\<close> of the answer to
    \<^verbatim>\<open>POST /models/{id}/predict\<close> with body \<^verbatim>\<open>{indices: [x]}\<close>, beside \<open>x\<close>; a refused
    input or a rejected request leaves the value on display as it was.
  \<^item> Nissan results page, chart and table: the stored predictions are the answer to the
    same request with body \<^verbatim>\<open>{}\<close>, or what they were when a request of the loading
    sequence is rejected; the chart's predicted series is \<^verbatim>\<open>original.predictions\<close>
    followed by \<^verbatim>\<open>projection.predictions\<close>; the table's prediction in row \<open>i\<close> is
    \<^verbatim>\<open>original.predictions[i]\<close>, so the column is that array when it is as long as the
    indices. The one number the page works out itself is the error column, the absolute
    difference of the row's actual value and prediction.
  \<^item> EV predictions page: the stored forecast is the answer to the forecast request
    (model, 730 steps of 7 days), or what it was; the chart's values are the forecast's
    \<^verbatim>\<open>predictions\<close> in order, and the state of health shown for a threshold is the one of
    the crossing the backend sent.
  \<^item> EV model page: the prediction history is the backend's answer, or what it was; the
    predicted value of a row is the entry's \<^verbatim>\<open>predicted_soh\<close>, and an error shown beside
    it is the absolute difference of the entry's actual and predicted value.
\<close>

theorem rendered_predictions_are_backend_values:
  "((predictionInput st \<noteq> [] \<and> parseFloat (predictionInput st) = Some x
      \<and> backend (''/models/'' @ modelId @ ''/predict'') (Some [x]) = Inr r \<longrightarrow>
      customPrediction (snd (handlePredict parseFloat backend modelId b st))
        = Some \<lparr>index = x, prediction = (case predictions r of [] \<Rightarrow> None | p # _ \<Rightarrow> Some p)\<rparr>)
    \<and> (predictionInput st = [] \<or> parseFloat (predictionInput st) = None
      \<or> (\<exists>x e. parseFloat (predictionInput st) = Some x
             \<and> backend (''/models/'' @ modelId @ ''/predict'') (Some [x]) = Inl e) \<longrightarrow>
      customPrediction (snd (handlePredict parseFloat backend modelId b st)) = customPrediction st))
   \<and> ((modelId \<noteq> [] \<and> model_answer = Inr mi \<and> file_backend (info_file_id mi) = Inr fi
      \<and> backend (''/models/'' @ modelId @ ''/predict'') None = Inr sr \<longrightarrow>
      predictions_state (snd (loadModelData model_answer file_backend backend modelId b st)) = Some sr)
    \<and> (modelId = [] \<or> (\<exists>e. model_answer = Inl e)
        \<or> (\<exists>mi e. model_answer = Inr mi \<and> file_backend (info_file_id mi) = Inl e)
        \<or> (\<exists>e. backend (''/models/'' @ modelId @ ''/predict'') None = Inl e) \<longrightarrow>
      predictions_state (snd (loadModelData model_answer file_backend backend modelId b st))
        = predictions_state st))
   \<and> map_option predicted_data (drawn_chart st)
       = map_option (\<lambda>p. original_predictions (original p) @ projection_predictions (projection p))
           (predictions_state st)
   \<and> map row_prediction (results_table (Some sr))
       = map (js_index (original_predictions (original sr)))
             [0..<length (original_indices (original sr))]
   \<and> (length (original_predictions (original sr)) = length (original_indices (original sr)) \<longrightarrow>
       map row_prediction (results_table (Some sr)) = map Some (original_predictions (original sr)))
   \<and> (\<forall>row\<in>set (results_table shown).
         row_error row = js_abs_diff (row_actual row) (row_prediction row))
   \<and> ((selectedModel pg = Some m \<and> m \<noteq> 0
      \<and> forecast_backend \<lparr>request_model_id = m, prediction_steps = 730, time_step_days = 7\<rparr> = Inr f
      \<and> metrics_backend m = Inr mt \<longrightarrow>
      forecast_state (snd (generateForecast forecast_backend metrics_backend b pg)) = Some f)
    \<and> (selectedModel pg = None \<or> selectedModel pg = Some 0
        \<or> (\<exists>m e. selectedModel pg = Some m
              \<and> (forecast_backend \<lparr>request_model_id = m, prediction_steps = 730,
                                     time_step_days = 7\<rparr> = Inl e
                  \<or> metrics_backend m = Inl e)) \<longrightarrow>
      forecast_state (snd (generateForecast forecast_backend metrics_backend b pg))
        = forecast_state pg))
   \<and> map soh (formatChartData (Some f)) = forecast_predictions f
   \<and> map info_soh (getThresholdInfo cr)
       = map (\<lambda>th. map_option crossing_soh (cr th)) [''70%'', ''50%'', ''20%'']
   \<and> ((ev_model_answer = Inr md \<and> is_trained md \<and> vehicle_answer = Inr v
      \<and> metrics_answer = Inr mt \<and> history_answer = Inr h \<longrightarrow>
      predictionHistory (snd (loadModelDetails ev_model_answer vehicle_answer metrics_answer
                                history_answer b dt)) = h)
    \<and> (predictionHistory (snd (loadModelDetails ev_model_answer vehicle_answer metrics_answer
                                 history_answer b dt)) = predictionHistory dt
       \<or> history_answer = Inr (predictionHistory (snd (loadModelDetails ev_model_answer
                                 vehicle_answer metrics_answer history_answer b dt)))))
   \<and> (cell_predicted (history_row entry) = predicted_soh entry
    \<and> (cell_error (history_row entry) \<noteq> None \<longrightarrow>
         cell_error (history_row entry) = js_abs_diff (actual_soh entry) (predicted_soh entry)))"
  apply (rule conjI, rule handlePredict_prediction)
  apply (rule conjI, rule loadModelData_predictions)
  apply (rule conjI, rule drawn_chart_predictions)
  apply (rule conjI, rule results_table_predictions)
  apply (rule conjI, rule results_table_complete)
  apply (rule conjI, rule results_table_errors)
  apply (rule conjI, rule generateForecast_forecast)
  apply (rule conjI, rule formatChartData_soh)
  apply (rule conjI, rule getThresholdInfo_soh)
  apply (rule conjI, rule loadModelDetails_history)
  apply (rule history_row_predicted)
  done

theorem rendered_predictions_are_backend_values_witness:
  "predictionInput \<lparr>results_model = None, fileData = None, predictions_state = None,
      predictionInput = ''12.5'', customPrediction = None, results_loading = True, predicting = False,
      results_error = None\<rparr> \<noteq> []
   \<and> (\<lambda>s. if s = ''12.5'' then Some (25 / 2) else None) ''12.5'' = Some (25 / 2)
   \<and> customPrediction (snd (handlePredict (\<lambda>s. if s = ''12.5'' then Some (25 / 2) else None)
        (\<lambda>path body. if path = ''/models/3/predict'' \<and> body = Some [25 / 2] then Inr
            \<lparr>predictions = [417 / 10], original = \<lparr>original_indices = [],
            original_actual_values = [], original_predictions = []\<rparr>, projection =
            \<lparr>projection_indices = [], projection_predictions = []\<rparr>\<rparr> else if path =
            ''/models/3/predict'' \<and> body = None then Inr \<lparr>predictions = [], original =
            \<lparr>original_indices = [1, 2], original_actual_values = [10, 20], original_predictions =
            [11, 19]\<rparr>, projection = \<lparr>projection_indices = [3], projection_predictions =
            [31]\<rparr>\<rparr> else Inl \<lparr>response = Some \<lparr>status = 404, detail =
            None\<rparr>, message = ''Not Found''\<rparr>)
        ''3'' \<lparr>localStorage = [''token'' \<mapsto> ''abc''], href = ''/models/3''\<rparr>
        \<lparr>results_model = None, fileData = None, predictions_state = None, predictionInput =
            ''12.5'', customPrediction = None, results_loading = True, predicting = False, results_error
            = None\<rparr>))
       = Some \<lparr>index = 25 / 2, prediction = Some (417 / 10)\<rparr>
   \<and> predictions_state (snd (loadModelData (Inr \<lparr>info_id = 3, info_file_id = 8\<rparr>)
       (\<lambda>i. Inr \<lparr>file_id = 8, original_filename = ''a.csv'', file_size = 10, is_processed
       = True\<rparr>) (\<lambda>path body. if path = ''/models/3/predict'' \<and> body = Some [25 / 2]
       then Inr \<lparr>predictions = [417 / 10], original = \<lparr>original_indices = [],
       original_actual_values = [], original_predictions = []\<rparr>, projection =
       \<lparr>projection_indices = [], projection_predictions = []\<rparr>\<rparr> else if path =
       ''/models/3/predict'' \<and> body = None then Inr \<lparr>predictions = [], original =
       \<lparr>original_indices = [1, 2], original_actual_values = [10, 20], original_predictions = [11,
       19]\<rparr>, projection = \<lparr>projection_indices = [3], projection_predictions =
       [31]\<rparr>\<rparr> else Inl \<lparr>response = Some \<lparr>status = 404, detail = None\<rparr>,
       message = ''Not Found''\<rparr>) ''3'' \<lparr>localStorage = [''token'' \<mapsto> ''abc''], href
       = ''/models/3''\<rparr> \<lparr>results_model = None, fileData = None, predictions_state = None,
       predictionInput = ''12.5'', customPrediction = None, results_loading = True, predicting = False,
       results_error = None\<rparr>))
       = Some \<lparr>predictions = [], original = \<lparr>original_indices = [1, 2],
           original_actual_values = [10, 20], original_predictions = [11, 19]\<rparr>, projection =
           \<lparr>projection_indices = [3], projection_predictions = [31]\<rparr>\<rparr>
   \<and> map_option predicted_data (drawn_chart (snd (loadModelData (Inr \<lparr>info_id = 3,
       info_file_id = 8\<rparr>) (\<lambda>i. Inr \<lparr>file_id = 8, original_filename = ''a.csv'',
       file_size = 10, is_processed = True\<rparr>) (\<lambda>path body. if path = ''/models/3/predict''
       \<and> body = Some [25 / 2] then Inr \<lparr>predictions = [417 / 10], original =
       \<lparr>original_indices = [], original_actual_values = [], original_predictions = []\<rparr>,
       projection = \<lparr>projection_indices = [], projection_predictions = []\<rparr>\<rparr> else if
       path = ''/models/3/predict'' \<and> body = None then Inr \<lparr>predictions = [], original =
       \<lparr>original_indices = [1, 2], original_actual_values = [10, 20], original_predictions = [11,
       19]\<rparr>, projection = \<lparr>projection_indices = [3], projection_predictions =
       [31]\<rparr>\<rparr> else Inl \<lparr>response = Some \<lparr>status = 404, detail = None\<rparr>,
       message = ''Not Found''\<rparr>) ''3'' \<lparr>localStorage = [''token'' \<mapsto> ''abc''], href
       = ''/models/3''\<rparr> \<lparr>results_model = None, fileData = None, predictions_state = None,
       predictionInput = ''12.5'', customPrediction = None, results_loading = True, predicting = False,
       results_error = None\<rparr>)))
       = Some [11, 19, 31]
   \<and> length (original_predictions (original \<lparr>predictions = [], original =
       \<lparr>original_indices = [1, 2], original_actual_values = [10, 20], original_predictions = [11,
       19]\<rparr>, projection = \<lparr>projection_indices = [3], projection_predictions =
       [31]\<rparr>\<rparr>)) = length (original_indices (original \<lparr>predictions = [], original =
       \<lparr>original_indices = [1, 2], original_actual_values = [10, 20], original_predictions = [11,
       19]\<rparr>, projection = \<lparr>projection_indices = [3], projection_predictions =
       [31]\<rparr>\<rparr>))
   \<and> map row_prediction (results_table (Some \<lparr>predictions = [], original =
       \<lparr>original_indices = [1, 2], original_actual_values = [10, 20], original_predictions = [11,
       19]\<rparr>, projection = \<lparr>projection_indices = [3], projection_predictions =
       [31]\<rparr>\<rparr>))
       = [Some 11, Some 19]
   \<and> map row_error (results_table (Some \<lparr>predictions = [], original =
       \<lparr>original_indices = [1, 2], original_actual_values = [10, 20], original_predictions = [11,
       19]\<rparr>, projection = \<lparr>projection_indices = [3], projection_predictions =
       [31]\<rparr>\<rparr>))
       = [Some 1, Some 1]
   \<and> selectedModel \<lparr>selectedModel = Some 3, forecast_state = None, metrics_state = None,
       page_loading = False, page_error = []\<rparr> = Some 3
   \<and> map_option forecast_predictions (forecast_state (snd (generateForecast (\<lambda>req. if
       request_model_id req = 3 \<and> prediction_steps req = 730 \<and> time_step_days req = 7 then Inr
       \<lparr>forecast_predictions = [90, 69], timestamps = [''2025-12-18'', ''2026-01-01''],
       current_soh = 91, threshold_crossings = [''70%'' \<mapsto> \<lparr>crossing_timestamp =
       ''2026-01-01'', days_from_start = 14, crossing_soh = 69\<rparr>]\<rparr> else Inl \<lparr>response
       = Some \<lparr>status = 404, detail = None\<rparr>, message = ''Not Found''\<rparr>) (\<lambda>m.
       Inr \<lparr>r2_score = Some (9 / 10), rmse = None, mae = None, mape = None\<rparr>)
       \<lparr>localStorage = [''token'' \<mapsto> ''abc''], href = ''/models/3''\<rparr>
       \<lparr>selectedModel = Some 3, forecast_state = None, metrics_state = None, page_loading = False,
       page_error = []\<rparr>)))
       = Some [90, 69]
   \<and> map soh (formatChartData (forecast_state (snd (generateForecast (\<lambda>req. if
       request_model_id req = 3 \<and> prediction_steps req = 730 \<and> time_step_days req = 7 then Inr
       \<lparr>forecast_predictions = [90, 69], timestamps = [''2025-12-18'', ''2026-01-01''],
       current_soh = 91, threshold_crossings = [''70%'' \<mapsto> \<lparr>crossing_timestamp =
       ''2026-01-01'', days_from_start = 14, crossing_soh = 69\<rparr>]\<rparr> else Inl \<lparr>response
       = Some \<lparr>status = 404, detail = None\<rparr>, message = ''Not Found''\<rparr>) (\<lambda>m.
       Inr \<lparr>r2_score = Some (9 / 10), rmse = None, mae = None, mape = None\<rparr>)
       \<lparr>localStorage = [''token'' \<mapsto> ''abc''], href = ''/models/3''\<rparr>
       \<lparr>selectedModel = Some 3, forecast_state = None, metrics_state = None, page_loading = False,
       page_error = []\<rparr>))))
       = [90, 69]
   \<and> map info_soh (getThresholdInfo [''70%'' \<mapsto> \<lparr>crossing_timestamp = ''2026-01-01'',
       days_from_start = 14, crossing_soh = 69\<rparr>])
       = [Some 69, None, None]
   \<and> is_trained \<lparr>ev_model_id = 3, is_trained = True\<rparr>
   \<and> predictionHistory (snd (loadModelDetails (Inr \<lparr>ev_model_id = 3, is_trained =
       True\<rparr>) (Inr \<lparr>vehicle_id = 1, vehicle_name = ''Leaf''\<rparr>) (Inr \<lparr>r2_score
       = Some (9 / 10), rmse = None, mae = None, mape = None\<rparr>) (Inr [\<lparr>created_at =
       ''2025-12-01'', predicted_soh = Some 88, actual_soh = Some 90\<rparr>]) \<lparr>localStorage =
       [''token'' \<mapsto> ''abc''], href = ''/models/3''\<rparr> \<lparr>detail_model = None,
       detail_vehicle = None, detail_metrics = None, predictionHistory = [], detail_loading = True,
       detail_error = []\<rparr>))
       = [\<lparr>created_at = ''2025-12-01'', predicted_soh = Some 88, actual_soh = Some 90\<rparr>]
   \<and> map (cell_predicted \<circ> history_row) (predictionHistory (snd (loadModelDetails (Inr
       \<lparr>ev_model_id = 3, is_trained = True\<rparr>) (Inr \<lparr>vehicle_id = 1, vehicle_name =
       ''Leaf''\<rparr>) (Inr \<lparr>r2_score = Some (9 / 10), rmse = None, mae = None, mape =
       None\<rparr>) (Inr [\<lparr>created_at = ''2025-12-01'', predicted_soh = Some 88, actual_soh =
       Some 90\<rparr>]) \<lparr>localStorage = [''token'' \<mapsto> ''abc''], href =
       ''/models/3''\<rparr> \<lparr>detail_model = None, detail_vehicle = None, detail_metrics = None,
       predictionHistory = [], detail_loading = True, detail_error = []\<rparr>)))
       = [Some 88]
   \<and> map (cell_error \<circ> history_row) (predictionHistory (snd (loadModelDetails (Inr
       \<lparr>ev_model_id = 3, is_trained = True\<rparr>) (Inr \<lparr>vehicle_id = 1, vehicle_name =
       ''Leaf''\<rparr>) (Inr \<lparr>r2_score = Some (9 / 10), rmse = None, mae = None, mape =
       None\<rparr>) (Inr [\<lparr>created_at = ''2025-12-01'', predicted_soh = Some 88, actual_soh =
       Some 90\<rparr>]) \<lparr>localStorage = [''token'' \<mapsto> ''abc''], href =
       ''/models/3''\<rparr> \<lparr>detail_model = None, detail_vehicle = None, detail_metrics = None,
       predictionHistory = [], detail_loading = True, detail_error = []\<rparr>)))
       = [Some 2]"
  using rendered_predictions_are_backend_values
      [where st = "\<lparr>results_model = None, fileData = None, predictions_state = None,
          predictionInput = ''12.5'', customPrediction = None, results_loading = True, predicting =
          False, results_error = None\<rparr>"
         and parseFloat = "(\<lambda>s. if s = ''12.5'' then Some (25 / 2) else None)"
         and x = "25 / 2"
         and backend = "(\<lambda>path body. if path = ''/models/3/predict'' \<and> body = Some [25 / 2]
             then Inr \<lparr>predictions = [417 / 10], original = \<lparr>original_indices = [],
             original_actual_values = [], original_predictions = []\<rparr>, projection =
             \<lparr>projection_indices = [], projection_predictions = []\<rparr>\<rparr> else if path =
             ''/models/3/predict'' \<and> body = None then Inr \<lparr>predictions = [], original =
             \<lparr>original_indices = [1, 2], original_actual_values = [10, 20], original_predictions =
             [11, 19]\<rparr>, projection = \<lparr>projection_indices = [3], projection_predictions =
             [31]\<rparr>\<rparr> else Inl \<lparr>response = Some \<lparr>status = 404, detail =
             None\<rparr>, message = ''Not Found''\<rparr>)"
         and modelId = "''3''"
         and r = "\<lparr>predictions = [417 / 10], original = \<lparr>original_indices = [],
             original_actual_values = [], original_predictions = []\<rparr>, projection =
             \<lparr>projection_indices = [], projection_predictions = []\<rparr>\<rparr>"
         and b = "\<lparr>localStorage = [''token'' \<mapsto> ''abc''], href = ''/models/3''\<rparr>"
         and model_answer = "Inr \<lparr>info_id = 3, info_file_id = 8\<rparr>"
         and mi = "\<lparr>info_id = 3, info_file_id = 8\<rparr>"
         and file_backend = "(\<lambda>i. Inr \<lparr>file_id = 8, original_filename = ''a.csv'',
             file_size = 10, is_processed = True\<rparr>)"
         and fi = "\<lparr>file_id = 8, original_filename = ''a.csv'', file_size = 10, is_processed =
             True\<rparr>"
         and sr = "\<lparr>predictions = [], original = \<lparr>original_indices = [1, 2],
             original_actual_values = [10, 20], original_predictions = [11, 19]\<rparr>, projection =
             \<lparr>projection_indices = [3], projection_predictions = [31]\<rparr>\<rparr>"
         and shown = "Some \<lparr>predictions = [], original = \<lparr>original_indices = [1, 2],
             original_actual_values = [10, 20], original_predictions = [11, 19]\<rparr>, projection =
             \<lparr>projection_indices = [3], projection_predictions = [31]\<rparr>\<rparr>"
         and pg = "\<lparr>selectedModel = Some 3, forecast_state = None, metrics_state = None,
             page_loading = False, page_error = []\<rparr>"
         and m = 3
         and forecast_backend = "(\<lambda>req. if request_model_id req = 3 \<and> prediction_steps req =
             730 \<and> time_step_days req = 7 then Inr \<lparr>forecast_predictions = [90, 69],
             timestamps = [''2025-12-18'', ''2026-01-01''], current_soh = 91, threshold_crossings =
             [''70%'' \<mapsto> \<lparr>crossing_timestamp = ''2026-01-01'', days_from_start = 14,
             crossing_soh = 69\<rparr>]\<rparr> else Inl \<lparr>response = Some \<lparr>status = 404,
             detail = None\<rparr>, message = ''Not Found''\<rparr>)"
         and f = "\<lparr>forecast_predictions = [90, 69], timestamps = [''2025-12-18'', ''2026-01-01''],
             current_soh = 91, threshold_crossings = [''70%'' \<mapsto> \<lparr>crossing_timestamp =
             ''2026-01-01'', days_from_start = 14, crossing_soh = 69\<rparr>]\<rparr>"
         and metrics_backend = "(\<lambda>m. Inr \<lparr>r2_score = Some (9 / 10), rmse = None, mae =
             None, mape = None\<rparr>)"
         and mt = "\<lparr>r2_score = Some (9 / 10), rmse = None, mae = None, mape = None\<rparr>"
         and cr = "[''70%'' \<mapsto> \<lparr>crossing_timestamp = ''2026-01-01'', days_from_start = 14,
             crossing_soh = 69\<rparr>]"
         and ev_model_answer = "Inr \<lparr>ev_model_id = 3, is_trained = True\<rparr>"
         and md = "\<lparr>ev_model_id = 3, is_trained = True\<rparr>"
         and vehicle_answer = "Inr \<lparr>vehicle_id = 1, vehicle_name = ''Leaf''\<rparr>"
         and v = "\<lparr>vehicle_id = 1, vehicle_name = ''Leaf''\<rparr>"
         and metrics_answer = "Inr \<lparr>r2_score = Some (9 / 10), rmse = None, mae = None, mape =
             None\<rparr>"
         and history_answer = "Inr [\<lparr>created_at = ''2025-12-01'', predicted_soh = Some 88,
             actual_soh = Some 90\<rparr>]"
         and h = "[\<lparr>created_at = ''2025-12-01'', predicted_soh = Some 88, actual_soh = Some
             90\<rparr>]"
         and dt = "\<lparr>detail_model = None, detail_vehicle = None, detail_metrics = None,
             predictionHistory = [], detail_loading = True, detail_error = []\<rparr>"
         and entry = "\<lparr>created_at = ''2025-12-01'', predicted_soh = Some 88, actual_soh = Some
             90\<rparr>"]
  by (simp add: drawn_chart_def prepareChartData_def results_table_def js_index_def
        js_abs_diff_def formatChartData_def getThresholdInfo_def history_row_def
        truthy_number_def Let_def)

section \<open>Quick stats of the dashboard\<close>

text \<open>
  C10. Every recent reading falls in exactly one of the two categories, Healthy Readings
  (\<^verbatim>\<open>state_of_health > 80\<close>) or Warning Readings (\<^verbatim>\<open>state_of_health <= 80\<close>), so the two
  counts on display add up to the number of readings in the list.
\<close>

theorem quick_stats_partition:
  "healthy_readings recentData + warning_readings recentData = length recentData
   \<and> (\<forall>d. (js_number (state_of_health d) > 80) \<noteq> (js_number (state_of_health d) \<le> 80))
   \<and> (\<forall>h w. quick_stats recentData = Some (h, w) \<longrightarrow> h + w = length recentData)"
proof -
  have compl: "(\<lambda>d. js_number (state_of_health d) \<le> 80)
                 = (\<lambda>d. \<not> js_number (state_of_health d) > 80)"
    by (auto simp: fun_eq_iff)
  have total: "healthy_readings recentData + warning_readings recentData = length recentData"
    unfolding healthy_readings_def warning_readings_def compl
    by (rule sum_length_filter_compl)
  moreover have "\<forall>d. (js_number (state_of_health d) > 80) \<noteq> (js_number (state_of_health d) \<le> 80)"
    by auto
  moreover have "\<forall>h w. quick_stats recentData = Some (h, w) \<longrightarrow> h + w = length recentData"
    using total by (auto simp: quick_stats_def split: if_splits)
  ultimately show ?thesis by blast
qed

theorem quick_stats_partition_witness:
  "quick_stats [\<lparr>state_of_health = Some 95, measurement_timestamp = ''2024-01-03''\<rparr>,
                \<lparr>state_of_health = Some 80, measurement_timestamp = ''2024-01-02''\<rparr>,
                \<lparr>state_of_health = None, measurement_timestamp = ''2024-01-01''\<rparr>] = Some (1, 2)
   \<and> (1::nat) + 2 = length [\<lparr>state_of_health = Some 95, measurement_timestamp = ''2024-01-03''\<rparr>,
                \<lparr>state_of_health = Some 80, measurement_timestamp = ''2024-01-02''\<rparr>,
                \<lparr>state_of_health = None, measurement_timestamp = ''2024-01-01''\<rparr>]"
  using quick_stats_partition
      [of "[\<lparr>state_of_health = Some 95, measurement_timestamp = ''2024-01-03''\<rparr>,
            \<lparr>state_of_health = Some 80, measurement_timestamp = ''2024-01-02''\<rparr>,
            \<lparr>state_of_health = None, measurement_timestamp = ''2024-01-01''\<rparr>]"]
  by (simp add: quick_stats_def healthy_readings_def warning_readings_def js_number_def)

section \<open>The refresh interval of the models list\<close>

lemma models_idle_with_empty_closure:
  "\<forall>e\<in>set evs. e = Tick \<or> (\<exists>a. e = Loaded a) \<Longrightarrow> closure_models st = [] \<Longrightarrow>
   requests (fold models_step evs st) = requests st"
proof (induction evs arbitrary: st)
  case Nil
  then show ?case by simp
next
  case (Cons e evs)
  from Cons.prems(1) have rest: "\<forall>e\<in>set evs. e = Tick \<or> (\<exists>a. e = Loaded a)" by simp
  from Cons.prems(1) consider "e = Tick" | a where "e = Loaded a" by auto
  then have step: "closure_models (models_step e st) = [] \<and> requests (models_step e st) = requests st"
  proof cases
    case 1
    with Cons.prems(2) show ?thesis
      by (simp add: models_tick_def hasTrainingModels_def Let_def split: option.splits)
  next
    case 2
    with Cons.prems(2) show ?thesis
      by (simp add: loadModels_finish_def split: sum.splits)
  qed
  with Cons.IH [OF rest, of "models_step e st"] show ?case by simp
qed

text \<open>
  What the interval does after a mount: as long as \<^verbatim>\<open>fileId\<close> stays the same, no tick
  ever sends a request, whatever lists arrive in between.
\<close>

lemma models_list_never_refreshes_after_mount:
  "\<forall>e\<in>set evs. e = Tick \<or> (\<exists>a. e = Loaded a) \<Longrightarrow>
   requests (models_run evs (models_step (Mount fid now) ms)) = [fid]"
  using models_idle_with_empty_closure [of evs "models_step (Mount fid now) ms"]
  by (simp add: models_run_def models_effect_def models_initial_def loadModels_start_def)

text \<open>
  C7 asks that a tick of the models list's interval sends a refresh request exactly when
  a model on display is pending or training. The callback tests the \<^verbatim>\<open>models\<close> it closed
  over when the effect ran, not the list on display. After mounting, the list arrives
  with a model in training and the next tick sends nothing: the only request is the one
  of the mount. And after a change of \<^verbatim>\<open>fileId\<close> made while a training model was on
  display, a tick still sends a request when every model on display is completed.
\<close>

theorem models_tick_reads_stale_models:
  "hasTrainingModels (models (models_run
       [Mount None 0,
        Loaded (Inr [\<lparr>model_id = 1, model_name = ''m'', training_status = ''training''\<rparr>]),
        Tick] (models_initial None)))
   \<and> requests (models_run
       [Mount None 0,
        Loaded (Inr [\<lparr>model_id = 1, model_name = ''m'', training_status = ''training''\<rparr>]),
        Tick] (models_initial None)) = [None]
   \<and> \<not> hasTrainingModels (models (models_run
       [Mount None 0,
        Loaded (Inr [\<lparr>model_id = 1, model_name = ''m'', training_status = ''training''\<rparr>]),
        FileIdChanged (Some 2) 1000,
        Loaded (Inr [\<lparr>model_id = 1, model_name = ''m'', training_status = ''completed''\<rparr>]),
        Tick] (models_initial None)))
   \<and> requests (models_run
       [Mount None 0,
        Loaded (Inr [\<lparr>model_id = 1, model_name = ''m'', training_status = ''training''\<rparr>]),
        FileIdChanged (Some 2) 1000,
        Loaded (Inr [\<lparr>model_id = 1, model_name = ''m'', training_status = ''completed''\<rparr>]),
        Tick] (models_initial None)) = [None, Some 2, Some 2]"
  by (simp add: models_run_def models_effect_def models_initial_def models_tick_def
        models_cleanup_def loadModels_start_def loadModels_finish_def hasTrainingModels_def
        setInterval_def rearm_def)

section \<open>How the polling loops end\<close>

text \<open>
  C1, as the code has it. The loops have no backoff and no retry, and a poll's failure
  handling is its try/catch; but each loop has its own ways to stop. The loop of the EV
  Models page is cleared when the model is trained, by the first rejected poll, and by a
  one-shot timeout set 300000 ms after the start; an untrained answer lets it run on.
  The interval of the Nissan models list is cleared by the effect's cleanup (on unmount,
  and on a change of \<^verbatim>\<open>fileId\<close>, which starts a new one). The loop of the Nissan training
  form is cleared when the status is completed or failed; a rejected poll there changes
  nothing and the loop runs on.
\<close>

theorem polling_loops_stop_conditions:
  "stopTimeout (ev_handleTrainModel now modelId (Inr ()) ev) = Some (now + 300000)
   \<and> pollInterval (ev_stop_timeout ev) = None
   \<and> (pollInterval ev = Some t \<longrightarrow>
        pollInterval (ev_poll (Inl err) ev) = None
        \<and> (is_trained d \<longrightarrow> pollInterval (ev_poll (Inr d) ev) = None)
        \<and> (\<not> is_trained d \<longrightarrow> pollInterval (ev_poll (Inr d) ev) = Some (rearm t)))
   \<and> interval (models_step Unmount ms) = None
   \<and> interval (models_step (FileIdChanged fid now) ms) = Some (setInterval now 5000)
   \<and> (pollingInterval tr = Some t \<longrightarrow>
        training_poll (Inl err) tr = tr\<lparr>pollingInterval := Some (rearm t)\<rparr>
        \<and> (training_status m = ''completed'' \<or> training_status m = ''failed'' \<longrightarrow>
             pollingInterval (training_poll (Inr m) tr) = None)
        \<and> (training_status m \<noteq> ''completed'' \<and> training_status m \<noteq> ''failed'' \<longrightarrow>
             pollingInterval (training_poll (Inr m) tr) = Some (rearm t)))"
  by (simp add: ev_handleTrainModel_def ev_stop_timeout_def ev_poll_def models_cleanup_def
        models_effect_def loadModels_start_def training_poll_def)

theorem polling_loops_stop_conditions_witness:
  "pollInterval (ev_handleTrainModel 0 3 (Inr ())
       \<lparr>trainingModel = None, pollInterval = None, stopTimeout = None, reloads = 0\<rparr>)
     = Some \<lparr>delay = 5000, next_due = 5000\<rparr>
   \<and> is_trained \<lparr>ev_model_id = 3, is_trained = True\<rparr>
   \<and> pollInterval (ev_poll (Inr \<lparr>ev_model_id = 3, is_trained = True\<rparr>)
       (ev_handleTrainModel 0 3 (Inr ())
         \<lparr>trainingModel = None, pollInterval = None, stopTimeout = None, reloads = 0\<rparr>)) = None
   \<and> \<not> is_trained \<lparr>ev_model_id = 3, is_trained = False\<rparr>
   \<and> pollInterval (ev_poll (Inr \<lparr>ev_model_id = 3, is_trained = False\<rparr>)
       (ev_handleTrainModel 0 3 (Inr ())
         \<lparr>trainingModel = None, pollInterval = None, stopTimeout = None, reloads = 0\<rparr>))
     = Some \<lparr>delay = 5000, next_due = 10000\<rparr>
   \<and> pollingInterval \<lparr>index_column = ''t'', target_column = ''y'', training = True,
        training_error = None, trainingResult = None, activeStep = 1,
        pollingInterval = Some \<lparr>delay = 3000, next_due = 3000\<rparr>\<rparr>
     = Some \<lparr>delay = 3000, next_due = 3000\<rparr>
   \<and> pollingInterval (training_poll
       (Inl \<lparr>response = Some \<lparr>status = 500, detail = None\<rparr>, message = ''Server''\<rparr>)
       \<lparr>index_column = ''t'', target_column = ''y'', training = True,
        training_error = None, trainingResult = None, activeStep = 1,
        pollingInterval = Some \<lparr>delay = 3000, next_due = 3000\<rparr>\<rparr>)
     = Some \<lparr>delay = 3000, next_due = 6000\<rparr>
   \<and> pollingInterval (training_poll
       (Inr \<lparr>model_id = 1, model_name = ''m'', training_status = ''completed''\<rparr>)
       \<lparr>index_column = ''t'', target_column = ''y'', training = True,
        training_error = None, trainingResult = None, activeStep = 1,
        pollingInterval = Some \<lparr>delay = 3000, next_due = 3000\<rparr>\<rparr>) = None
   \<and> pollingInterval (training_poll
       (Inr \<lparr>model_id = 1, model_name = ''m'', training_status = ''training''\<rparr>)
       \<lparr>index_column = ''t'', target_column = ''y'', training = True,
        training_error = None, trainingResult = None, activeStep = 1,
        pollingInterval = Some \<lparr>delay = 3000, next_due = 3000\<rparr>\<rparr>)
     = Some \<lparr>delay = 3000, next_due = 6000\<rparr>"
  using polling_loops_stop_conditions
      [of 0 3 "\<lparr>trainingModel = None, pollInterval = None, stopTimeout = None, reloads = 0\<rparr>"]
    polling_loops_stop_conditions
      [of 0 3 "ev_handleTrainModel 0 3 (Inr ())
                \<lparr>trainingModel = None, pollInterval = None, stopTimeout = None, reloads = 0\<rparr>"
          "\<lparr>delay = 5000, next_due = 5000\<rparr>"
          "\<lparr>response = Some \<lparr>status = 500, detail = None\<rparr>, message = ''Server''\<rparr>"
          "\<lparr>ev_model_id = 3, is_trained = True\<rparr>" "models_initial None" None
          "\<lparr>index_column = ''t'', target_column = ''y'', training = True,
            training_error = None, trainingResult = None, activeStep = 1,
            pollingInterval = Some \<lparr>delay = 3000, next_due = 3000\<rparr>\<rparr>"
          "\<lparr>model_id = 1, model_name = ''m'', training_status = ''completed''\<rparr>"]
    polling_loops_stop_conditions
      [of 0 3 "ev_handleTrainModel 0 3 (Inr ())
                \<lparr>trainingModel = None, pollInterval = None, stopTimeout = None, reloads = 0\<rparr>"
          "\<lparr>delay = 5000, next_due = 5000\<rparr>"
          "\<lparr>response = Some \<lparr>status = 500, detail = None\<rparr>, message = ''Server''\<rparr>"
          "\<lparr>ev_model_id = 3, is_trained = False\<rparr>" "models_initial None" None
          "\<lparr>index_column = ''t'', target_column = ''y'', training = True,
            training_error = None, trainingResult = None, activeStep = 1,
            pollingInterval = Some \<lparr>delay = 3000, next_due = 3000\<rparr>\<rparr>"
          "\<lparr>model_id = 1, model_name = ''m'', training_status = ''training''\<rparr>"]
  by (simp add: ev_handleTrainModel_def setInterval_def rearm_def)

text \<open>
  The claim as it was stated fails: a loop of the EV Models page that is running is
  stopped by a rejected poll and by its timeout, and the running interval of the Nissan
  models list is stopped by unmounting.
\<close>

theorem polling_loop_is_cancelled:
  "pollInterval (ev_handleTrainModel 0 3 (Inr ())
       \<lparr>trainingModel = None, pollInterval = None, stopTimeout = None, reloads = 0\<rparr>)
     = Some \<lparr>delay = 5000, next_due = 5000\<rparr>
   \<and> pollInterval (ev_poll
       (Inl \<lparr>response = Some \<lparr>status = 500, detail = None\<rparr>, message = ''Server''\<rparr>)
       (ev_handleTrainModel 0 3 (Inr ())
         \<lparr>trainingModel = None, pollInterval = None, stopTimeout = None, reloads = 0\<rparr>)) = None
   \<and> pollInterval (ev_stop_timeout
       (ev_handleTrainModel 0 3 (Inr ())
         \<lparr>trainingModel = None, pollInterval = None, stopTimeout = None, reloads = 0\<rparr>)) = None
   \<and> interval (models_run [Mount None 0] (models_initial None))
     = Some \<lparr>delay = 5000, next_due = 5000\<rparr>
   \<and> interval (models_run [Mount None 0, Unmount] (models_initial None)) = None"
  by (simp add: ev_handleTrainModel_def ev_poll_def ev_stop_timeout_def models_run_def
        models_effect_def models_cleanup_def loadModels_start_def setInterval_def)

section \<open>The polling interval is fixed\<close>

lemma ev_poll_alive:
  "pollInterval (ev_poll a st) = Some t1 \<Longrightarrow> \<exists>t. pollInterval st = Some t \<and> t1 = rearm t"
  by (auto simp: ev_poll_def split: option.splits sum.splits if_splits)

lemma ev_poll_fold:
  "pollInterval (fold ev_poll answers st) = Some t1 \<Longrightarrow>
   \<exists>t. pollInterval st = Some t \<and> delay t1 = delay t
       \<and> next_due t1 = next_due t + delay t * length answers"
proof (induction answers arbitrary: st)
  case Nil
  then show ?case by simp
next
  case (Cons a answers)
  from Cons.prems have "pollInterval (fold ev_poll answers (ev_poll a st)) = Some t1" by simp
  from Cons.IH [OF this] obtain t2 where t2: "pollInterval (ev_poll a st) = Some t2"
    and d: "delay t1 = delay t2" and n: "next_due t1 = next_due t2 + delay t2 * length answers"
    by blast
  from ev_poll_alive [OF t2] obtain t where "pollInterval st = Some t" and "t2 = rearm t"
    by blast
  with d n show ?case by (simp add: rearm_def)
qed

lemma training_poll_alive:
  "pollingInterval (training_poll a st) = Some t1 \<Longrightarrow>
   \<exists>t. pollingInterval st = Some t \<and> t1 = rearm t"
  by (auto simp: training_poll_def split: option.splits sum.splits if_splits)

lemma training_poll_fold:
  "pollingInterval (fold training_poll answers st) = Some t1 \<Longrightarrow>
   \<exists>t. pollingInterval st = Some t \<and> delay t1 = delay t
       \<and> next_due t1 = next_due t + delay t * length answers"
proof (induction answers arbitrary: st)
  case Nil
  then show ?case by simp
next
  case (Cons a answers)
  from Cons.prems have "pollingInterval (fold training_poll answers (training_poll a st)) = Some t1"
    by simp
  from Cons.IH [OF this] obtain t2 where t2: "pollingInterval (training_poll a st) = Some t2"
    and d: "delay t1 = delay t2" and n: "next_due t1 = next_due t2 + delay t2 * length answers"
    by blast
  from training_poll_alive [OF t2] obtain t where "pollingInterval st = Some t" and "t2 = rearm t"
    by blast
  with d n show ?case by (simp add: rearm_def)
qed

lemma models_step_delay:
  "\<forall>t. interval st = Some t \<longrightarrow> delay t = 5000 \<Longrightarrow>
   \<forall>t. interval (models_step e st) = Some t \<longrightarrow> delay t = 5000"
  by (cases e)
     (auto simp: models_effect_def models_cleanup_def models_tick_def loadModels_start_def
        loadModels_finish_def setInterval_def rearm_def Let_def
        split: option.splits sum.splits if_splits)

lemma models_run_delay:
  "\<forall>t. interval st = Some t \<longrightarrow> delay t = 5000 \<Longrightarrow>
   \<forall>t. interval (fold models_step evs st) = Some t \<longrightarrow> delay t = 5000"
proof (induction evs arbitrary: st)
  case Nil
  then show ?case by simp
next
  case (Cons e evs)
  from models_step_delay [OF Cons.prems]
  have "\<forall>t. interval (models_step e st) = Some t \<longrightarrow> delay t = 5000" .
  from Cons.IH [OF this] show ?case by simp
qed

lemma models_ticks_due:
  "\<forall>e\<in>set evs. e = Tick \<or> (\<exists>a. e = Loaded a) \<Longrightarrow> interval st = Some t \<Longrightarrow>
   interval (fold models_step evs st)
     = Some \<lparr>delay = delay t, next_due = next_due t + delay t * count_list evs Tick\<rparr>"
proof (induction evs arbitrary: st t)
  case Nil
  then show ?case by simp
next
  case (Cons e evs)
  from Cons.prems(1) have rest: "\<forall>e\<in>set evs. e = Tick \<or> (\<exists>a. e = Loaded a)" by simp
  from Cons.prems(1) consider "e = Tick" | a where "e = Loaded a" by auto
  then show ?case
  proof cases
    case 1
    with Cons.prems(2) have "interval (models_step e st) = Some (rearm t)"
      by (simp add: models_tick_def loadModels_start_def Let_def)
    from Cons.IH [OF rest this] 1 show ?thesis by (simp add: rearm_def algebra_simps)
  next
    case 2
    with Cons.prems(2) have "interval (models_step e st) = Some t"
      by (simp add: loadModels_finish_def split: sum.splits)
    from Cons.IH [OF rest this] 2 show ?thesis by simp
  qed
qed

text \<open>
  C2. Each polling loop is a timer with a fixed delay: 5000 ms on the EV Models page and in
  the Nissan models list, 3000 ms in the Nissan training form. Whatever the answers to
  the polls were, a loop that is still running after them has its delay unchanged and
  its next tick due one delay after the last, so tick number \<open>k\<close> falls \<open>k\<close> delays after
  the start. In the models list every interval ever made has the delay 5000.
\<close>

theorem polling_interval_is_fixed:
  "(pollInterval (fold ev_poll answers (ev_handleTrainModel now modelId (Inr ()) ev)) = Some t \<longrightarrow>
      delay t = 5000 \<and> next_due t = now + 5000 * (length answers + 1))
   \<and> (index_column tr \<noteq> [] \<and> target_column tr \<noteq> []
        \<and> pollingInterval (fold training_poll manswers (training_handleTrainModel now (Inr r) tr)) = Some t \<longrightarrow>
      delay t = 3000 \<and> next_due t = now + 3000 * (length manswers + 1))
   \<and> ((\<forall>e\<in>set evs. e = Tick \<or> (\<exists>a. e = Loaded a)) \<longrightarrow>
      interval (models_run evs (models_step (Mount fid now) ms))
        = Some \<lparr>delay = 5000, next_due = now + 5000 * (count_list evs Tick + 1)\<rparr>)
   \<and> (interval (models_run evs2 (models_step (Mount fid now) ms)) = Some t \<longrightarrow> delay t = 5000)"
proof (intro conjI impI)
  assume "pollInterval (fold ev_poll answers (ev_handleTrainModel now modelId (Inr ()) ev)) = Some t"
  from ev_poll_fold [OF this]
  show "delay t = 5000" and "next_due t = now + 5000 * (length answers + 1)"
    by (auto simp: ev_handleTrainModel_def setInterval_def)
next
  assume a: "index_column tr \<noteq> [] \<and> target_column tr \<noteq> []
      \<and> pollingInterval (fold training_poll manswers (training_handleTrainModel now (Inr r) tr)) = Some t"
  from training_poll_fold [of manswers "training_handleTrainModel now (Inr r) tr" t] a
  show "delay t = 3000" and "next_due t = now + 3000 * (length manswers + 1)"
    by (auto simp: training_handleTrainModel_def setInterval_def split: if_splits)
next
  assume "\<forall>e\<in>set evs. e = Tick \<or> (\<exists>a. e = Loaded a)"
  from models_ticks_due [OF this, of "models_step (Mount fid now) ms" "setInterval now 5000"]
  show "interval (models_run evs (models_step (Mount fid now) ms))
        = Some \<lparr>delay = 5000, next_due = now + 5000 * (count_list evs Tick + 1)\<rparr>"
    by (simp add: models_run_def models_effect_def loadModels_start_def setInterval_def)
next
  assume a: "interval (models_run evs2 (models_step (Mount fid now) ms)) = Some t"
  have "\<forall>t. interval (models_step (Mount fid now) ms) = Some t \<longrightarrow> delay t = 5000"
    by (simp add: models_effect_def loadModels_start_def setInterval_def)
  from models_run_delay [OF this, of evs2] a show "delay t = 5000"
    by (simp add: models_run_def)
qed

theorem polling_interval_is_fixed_witness:
  "pollInterval (fold ev_poll [Inr \<lparr>ev_model_id = 3, is_trained = False\<rparr>, Inl \<lparr>response = Some \<lparr>status = 500, detail = None\<rparr>, message = ''Server''\<rparr>]
       (ev_handleTrainModel 0 3 (Inr ()) \<lparr>trainingModel = None, pollInterval = None, stopTimeout = None, reloads = 0\<rparr>)) = None
   \<and> pollInterval (fold ev_poll [Inr \<lparr>ev_model_id = 3, is_trained = False\<rparr>, Inr \<lparr>ev_model_id = 3, is_trained = False\<rparr>]
       (ev_handleTrainModel 0 3 (Inr ()) \<lparr>trainingModel = None, pollInterval = None, stopTimeout = None, reloads = 0\<rparr>))
     = Some \<lparr>delay = 5000, next_due = 15000\<rparr>
   \<and> index_column \<lparr>index_column = ''t'', target_column = ''y'', training = False,
          training_error = None, trainingResult = None, activeStep = 0, pollingInterval = None\<rparr> \<noteq> []
   \<and> target_column \<lparr>index_column = ''t'', target_column = ''y'', training = False,
          training_error = None, trainingResult = None, activeStep = 0, pollingInterval = None\<rparr> \<noteq> []
   \<and> pollingInterval (fold training_poll [Inl \<lparr>response = Some \<lparr>status = 500, detail = None\<rparr>, message = ''Server''\<rparr>, Inr \<lparr>model_id = 1, model_name = ''m'', training_status = ''training''\<rparr>]
       (training_handleTrainModel 0 (Inr \<lparr>model_id = 1, model_name = ''m'', training_status = ''pending''\<rparr>) \<lparr>index_column = ''t'', target_column = ''y'', training = False,
          training_error = None, trainingResult = None, activeStep = 0, pollingInterval = None\<rparr>))
     = Some \<lparr>delay = 3000, next_due = 9000\<rparr>
   \<and> interval (models_run [Tick, Loaded (Inr [\<lparr>model_id = 1, model_name = ''m'', training_status = ''training''\<rparr>]), Tick]
       (models_step (Mount None 0) (models_initial None)))
     = Some \<lparr>delay = 5000, next_due = 15000\<rparr>
   \<and> interval (models_run [Tick, FileIdChanged (Some 2) 7000, Tick]
       (models_step (Mount None 0) (models_initial None)))
     = Some \<lparr>delay = 5000, next_due = 17000\<rparr>"
  using polling_interval_is_fixed
      [of "[Inr \<lparr>ev_model_id = 3, is_trained = False\<rparr>, Inr \<lparr>ev_model_id = 3, is_trained = False\<rparr>]" 0 3 "\<lparr>trainingModel = None, pollInterval = None, stopTimeout = None, reloads = 0\<rparr>" "\<lparr>delay = 5000, next_due = 15000\<rparr>"
          "\<lparr>index_column = ''t'', target_column = ''y'', training = False,
          training_error = None, trainingResult = None, activeStep = 0, pollingInterval = None\<rparr>" "[]" "\<lparr>model_id = 1, model_name = ''m'', training_status = ''pending''\<rparr>"
          "[Tick, Loaded (Inr [\<lparr>model_id = 1, model_name = ''m'', training_status = ''training''\<rparr>]), Tick]" None "models_initial None"
          "[Tick, FileIdChanged (Some 2) 7000, Tick]"]
    polling_interval_is_fixed
      [of "[]" 0 3 "\<lparr>trainingModel = None, pollInterval = None, stopTimeout = None, reloads = 0\<rparr>" "\<lparr>delay = 3000, next_due = 9000\<rparr>"
          "\<lparr>index_column = ''t'', target_column = ''y'', training = False,
          training_error = None, trainingResult = None, activeStep = 0, pollingInterval = None\<rparr>" "[Inl \<lparr>response = Some \<lparr>status = 500, detail = None\<rparr>, message = ''Server''\<rparr>, Inr \<lparr>model_id = 1, model_name = ''m'', training_status = ''training''\<rparr>]" "\<lparr>model_id = 1, model_name = ''m'', training_status = ''pending''\<rparr>"
          "[]" None "models_initial None" "[]"]
  by (simp add: ev_handleTrainModel_def ev_poll_def training_handleTrainModel_def
        training_poll_def models_run_def models_effect_def models_cleanup_def models_tick_def
        models_initial_def loadModels_start_def loadModels_finish_def hasTrainingModels_def
        setInterval_def rearm_def)

end
